theory Spec2Isabelle
  imports Main
begin

section \<open>The vim.org scraper: data model\<close>

text \<open>
  The scraper (\<^verbatim>\<open>tools/scrape/vimorg.py\<close>) works on lxml element trees. An lxml element
  has a tag, an attribute dictionary, an optional leading text (\<^verbatim>\<open>.text\<close>, \<^verbatim>\<open>None\<close> when
  the element starts with no text), its child elements, and an optional trailing text
  (\<^verbatim>\<open>.tail\<close>: the text between the element's end tag and the next sibling element).
  The selector for \<^verbatim>\<open>.text\<close> is called \<open>etext\<close>. Comments and processing instructions,
  which lxml also keeps as children, behave in this code like childless elements whose tag
  is neither \<^verbatim>\<open>br\<close> nor \<^verbatim>\<open>a\<close>.
\<close>

datatype element =
  Element (tag: string) (attrib: "(string \<times> string) list") (etext: "string option")
    (children: "element list") (tail: "string option")

text \<open>
  Python exceptions are values. \<open>WeirdLink href text\<close> is the
  \<^verbatim>\<open>Exception("Weird link to %s with text %s" % (href, text))\<close> of the cleaner; \<open>External\<close>
  stands for whatever a library call outside this module raises (network, parser).
\<close>

datatype error =
  TypeError | KeyError | IndexError | ValueError | AttributeError | AssertionError
  | WeirdLink string string | External string

fun and_then :: "error + 'a \<Rightarrow> ('a \<Rightarrow> error + 'b) \<Rightarrow> error + 'b" where
  "and_then (Inl e) f = Inl e"
| "and_then (Inr x) f = f x"

subsection \<open>Python and lxml primitives\<close>

text \<open>\<^verbatim>\<open>if s:\<close> on an optional string: \<^verbatim>\<open>None\<close> and the empty string are both false.\<close>

definition truthy :: "string option \<Rightarrow> bool" where
  "truthy s = (case s of None \<Rightarrow> False | Some t \<Rightarrow> t \<noteq> [])"

text \<open>The characters of an optional string (\<^verbatim>\<open>None\<close> contributes no characters).\<close>

definition chars :: "string option \<Rightarrow> string" where
  "chars s = (case s of None \<Rightarrow> [] | Some t \<Rightarrow> t)"

text \<open>\<^verbatim>\<open>sub in s\<close> on strings: \<open>sub\<close> occurs in \<open>s\<close> as a contiguous run.\<close>

fun starts_with :: "string \<Rightarrow> string \<Rightarrow> bool" where
  "starts_with [] s = True"
| "starts_with (c # cs) [] = False"
| "starts_with (c # cs) (d # ds) = (c = d \<and> starts_with cs ds)"

fun str_in :: "string \<Rightarrow> string \<Rightarrow> bool" where
  "str_in sub [] = (sub = [])"
| "str_in sub (c # cs) = (starts_with sub (c # cs) \<or> str_in sub cs)"

text \<open>
  \<^verbatim>\<open>elem.getprevious()\<close>: the preceding sibling element, \<^verbatim>\<open>None\<close> for a first child.
  \<open>prev\<close> is the list of the siblings that stand before the element in the tree.
\<close>

definition getprevious :: "element list \<Rightarrow> element option" where
  "getprevious prev = (if prev = [] then None else Some (last prev))"

text \<open>
  \<^verbatim>\<open>if elem.getprevious():\<close> takes the truth value of the result. \<^verbatim>\<open>None\<close> is false, and
  an lxml element is true exactly when it has child elements (lxml's \<^verbatim>\<open>__nonzero__\<close>
  returns \<^verbatim>\<open>_hasChild\<close>, with a FutureWarning).
\<close>

definition bool_element :: "element option \<Rightarrow> bool" where
  "bool_element p = (case p of None \<Rightarrow> False | Some e \<Rightarrow> children e \<noteq> [])"

text \<open>
  \<^verbatim>\<open>elem.getprevious().tail += s\<close>: reads the tail of the preceding sibling, concatenates and
  stores it back; \<^verbatim>\<open>None + s\<close> raises TypeError.
\<close>

definition set_tail :: "element \<Rightarrow> string option \<Rightarrow> element" where
  "set_tail e t = Element (tag e) (attrib e) (etext e) (children e) t"

definition iadd_prev_tail :: "element list \<Rightarrow> string \<Rightarrow> error + element list" where
  "iadd_prev_tail prev s =
     (case tail (last prev) of
        None \<Rightarrow> Inl TypeError
      | Some t \<Rightarrow> Inr (butlast prev @ [set_tail (last prev) (Some (t @ s))]))"

text \<open>\<^verbatim>\<open>elem.getparent().text += s\<close>, on the parent's leading text.\<close>

definition iadd_text :: "string option \<Rightarrow> string \<Rightarrow> error + string option" where
  "iadd_text ptext s = (case ptext of None \<Rightarrow> Inl TypeError | Some t \<Rightarrow> Inr (Some (t @ s)))"

section \<open>The fragment cleaner\<close>

text \<open>
  \<^verbatim>\<open>_clean_text_node(node)\<close> mutates \<open>node\<close> in place while iterating over it.
  lxml's child iterator keeps a reference to the element it will return next: each
  \<^verbatim>\<open>__next__\<close> returns the stored element and stores that element's next sibling. The loop
  body removes at most the element it is at, so the loop visits every child of the input
  once, in document order. \<^verbatim>\<open>parent.remove(elem)\<close> takes the element out together with
  its tail.

  The state of the loop is the parent's leading text and \<open>prev\<close>, the children before the
  current element that are still in the tree, in document order.

  Lines 95 to 114, the recognised link: \<open>replace_link\<close> is lines 100 to 107, run on the link's
  text \<open>t\<close>.
\<close>

definition replace_link ::
  "string option \<times> element list \<Rightarrow> element \<Rightarrow> string \<Rightarrow> error + string option \<times> element list" where
  "replace_link st elem t =
     (case st of (ptext, prev) \<Rightarrow>
        if bool_element (getprevious prev) then
          and_then (iadd_prev_tail prev t) (\<lambda>prev1.
            if truthy (tail elem)
            then and_then (iadd_prev_tail prev1 (chars (tail elem))) (\<lambda>prev2. Inr (ptext, prev2))
            else Inr (ptext, prev1))
        else
          and_then (iadd_text ptext t) (\<lambda>ptext1.
            if truthy (tail elem)
            then and_then (iadd_text ptext1 (chars (tail elem))) (\<lambda>ptext2. Inr (ptext2, prev))
            else Inr (ptext1, prev)))"

text \<open>
  One run of the loop body (lines 85 to 114) on \<open>elem\<close>. An element that is removed is not
  added to \<open>prev\<close>; any other element stays in the tree and becomes the preceding sibling
  of the next one.
\<close>

definition clean_elem ::
  "string option \<times> element list \<Rightarrow> element \<Rightarrow> error + string option \<times> element list" where
  "clean_elem st elem =
     (case st of (ptext, prev) \<Rightarrow>
        if tag elem = ''br'' then
          (if truthy (tail elem) then
             (if bool_element (getprevious prev)
              then and_then (iadd_prev_tail prev (chars (tail elem))) (\<lambda>prev1. Inr (ptext, prev1))
              else and_then (iadd_text ptext (chars (tail elem))) (\<lambda>ptext1. Inr (ptext1, prev)))
           else Inr (ptext, prev))
        else if tag elem = ''a'' then
          (case map_of (attrib elem) ''href'' of
             None \<Rightarrow> Inl KeyError
           | Some href \<Rightarrow>
               if etext elem = Some href then replace_link st elem href
               else
                 (case etext elem of
                    None \<Rightarrow> Inl TypeError
                  | Some t \<Rightarrow>
                      if str_in ''vimscript'' t then replace_link st elem t
                      else if str_in ''vimtip'' t then Inr (ptext, prev)
                      else Inl (WeirdLink href t)))
        else Inr (ptext, prev @ [elem]))"

fun clean_loop ::
  "string option \<times> element list \<Rightarrow> element list \<Rightarrow> error + string option \<times> element list" where
  "clean_loop st [] = Inr st"
| "clean_loop st (elem # rest) = and_then (clean_elem st elem) (\<lambda>st1. clean_loop st1 rest)"

text \<open>
  The whole function. Lines 80 and 81 give a node that has children and no (or empty)
  leading text the leading text \<^verbatim>\<open>""\<close>. An exception leaves the function; the half-cleaned
  node is then dropped by the caller.
\<close>

definition clean_text_node :: "element \<Rightarrow> error + element" where
  "clean_text_node node =
     (let text0 = (if children node \<noteq> [] \<and> \<not> truthy (etext node) then Some [] else etext node)
      in and_then (clean_loop (text0, []) (children node)) (\<lambda>st.
           Inr (Element (tag node) (attrib node) (fst st) (snd st) (tail node))))"

text \<open>
  The links the cleaner accepts (lines 98 and 108): a link with a target and a text, where
  the text is the target or contains \<^verbatim>\<open>vimscript\<close> or \<^verbatim>\<open>vimtip\<close>.
\<close>

definition recognised_link :: "element \<Rightarrow> bool" where
  "recognised_link e =
     (case map_of (attrib e) ''href'' of
        None \<Rightarrow> False
      | Some h \<Rightarrow>
          (case etext e of
             None \<Rightarrow> False
           | Some t \<Rightarrow> t = h \<or> str_in ''vimscript'' t \<or> str_in ''vimtip'' t))"

text \<open>
  The text the loop keeps of a \<^verbatim>\<open>br\<close> or \<^verbatim>\<open>a\<close> child: the tail of a \<^verbatim>\<open>br\<close>; the text
  and the tail of a link whose text is its target or contains \<^verbatim>\<open>vimscript\<close>; nothing of
  any other link.
\<close>

definition kept_text :: "element \<Rightarrow> string" where
  "kept_text e =
     (if tag e = ''br'' then chars (tail e)
      else
        (case etext e of
           None \<Rightarrow> []
         | Some t \<Rightarrow>
             if map_of (attrib e) ''href'' = Some t \<or> str_in ''vimscript'' t
             then t @ chars (tail e) else []))"

text \<open>
  The text content of a fragment: its leading text, then for each child in document order
  the child's own text content and its tail.
\<close>

fun text_content :: "element \<Rightarrow> string" where
  "text_content (Element t a tx cs tx') =
     chars tx @ concat (map (\<lambda>c. text_content c @ chars (tail c)) cs)"

text \<open>The tags of all elements below an element, in document order.\<close>

fun descendant_tags :: "element \<Rightarrow> string list" where
  "descendant_tags (Element t a tx cs tx') = concat (map (\<lambda>c. tag c # descendant_tags c) cs)"

section \<open>Python lists, integers and regular expressions\<close>

text \<open>\<^verbatim>\<open>xs[i]\<close>: a negative index counts from the end, an index out of range raises.\<close>

definition py_index :: "'a list \<Rightarrow> int \<Rightarrow> error + 'a" where
  "py_index xs i =
     (let j = (if i < 0 then i + int (length xs) else i)
      in if j < 0 \<or> int (length xs) \<le> j then Inl IndexError else Inr (xs ! nat j))"

text \<open>\<^verbatim>\<open>xs[i:j]\<close>: both bounds are clipped to the list, and the slice never raises.\<close>

definition py_slice :: "'a list \<Rightarrow> int \<Rightarrow> int \<Rightarrow> 'a list" where
  "py_slice xs i j =
     (let n = int (length xs);
          lo = (if i < 0 then max 0 (i + n) else min i n);
          hi = (if j < 0 then max 0 (j + n) else min j n)
      in take (nat (hi - lo)) (drop (nat lo) xs))"

text \<open>\<^verbatim>\<open>elem[i]\<close> on an lxml element indexes its children; \<^verbatim>\<open>tr[0][0]\<close> is \<open>path tr [0, 0]\<close>.\<close>

definition child :: "element \<Rightarrow> int \<Rightarrow> error + element" where
  "child e i = py_index (children e) i"

fun path :: "element \<Rightarrow> int list \<Rightarrow> error + element" where
  "path e [] = Inr e"
| "path e (i # is) = and_then (child e i) (\<lambda>c. path c is)"

definition attrib_get :: "element \<Rightarrow> string \<Rightarrow> error + string" where
  "attrib_get e k = (case map_of (attrib e) k of None \<Rightarrow> Inl KeyError | Some v \<Rightarrow> Inr v)"

text \<open>
  \<^verbatim>\<open>int(x)\<close>: TypeError on \<^verbatim>\<open>None\<close>, ValueError on a string that is no integer literal.
  Which strings are integer literals is the builtin's business: \<open>lit\<close> is that parser.
\<close>

definition py_int :: "(string \<Rightarrow> int option) \<Rightarrow> string option \<Rightarrow> error + int" where
  "py_int lit x =
     (case x of
        None \<Rightarrow> Inl TypeError
      | Some s \<Rightarrow> (case lit s of None \<Rightarrow> Inl ValueError | Some n \<Rightarrow> Inr n))"

text \<open>
  \<^verbatim>\<open>\d\<close> in the two patterns of the module: one of the ten ASCII digits (the patterns
  are compiled without the UNICODE flag).
\<close>

definition is_digit :: "char \<Rightarrow> bool" where
  "is_digit c = (c \<in> set ''0123456789'')"

text \<open>
  \<^verbatim>\<open>re.search("script_id=(\d+)", link)\<close>: the leftmost place where \<^verbatim>\<open>script_id=\<close> is followed
  by a digit; the result is group 1, the longest run of digits there, or \<open>None\<close> when
  nothing matches.
\<close>

fun search_script_id :: "string \<Rightarrow> string option" where
  "search_script_id [] = None"
| "search_script_id (c # cs) =
     (let ds = takeWhile is_digit (drop 10 (c # cs))
      in if starts_with ''script_id='' (c # cs) \<and> ds \<noteq> [] then Some ds
         else search_script_id cs)"

text \<open>
  \<^verbatim>\<open>re.search("(\d+)/(\d+)", s)\<close>: the leftmost digit whose run of digits is followed by a
  slash and a digit; the result is group 2, the run of digits after the slash.
\<close>

fun search_rating :: "string \<Rightarrow> string option" where
  "search_rating [] = None"
| "search_rating (c # cs) =
     (let after = dropWhile is_digit (c # cs);
          ds = takeWhile is_digit (drop 1 after)
      in if is_digit c \<and> starts_with ''/'' after \<and> ds \<noteq> [] then Some ds
         else search_rating cs)"

text \<open>\<^verbatim>\<open>m.group(k)\<close> on the result of a search: AttributeError when the search found nothing.\<close>

definition group :: "string option \<Rightarrow> error + string" where
  "group m = (case m of None \<Rightarrow> Inl AttributeError | Some g \<Rightarrow> Inr g)"

definition assert_that :: "bool \<Rightarrow> error + unit" where
  "assert_that b = (if b then Inr () else Inl AssertionError)"

section \<open>Serialising a node\<close>

text \<open>
  \<^verbatim>\<open>_get_outerhtml\<close> serialises the node with \<^verbatim>\<open>lxml.html.tostring\<close> (the parameter
  \<open>tostring\<close>) and removes the first match of \<^verbatim>\<open>[^>]*$\<close>: the leftmost match starts right
  after the last closing angle bracket and runs to the end of the string.
\<close>

definition cut_after_last_gt :: "string \<Rightarrow> string" where
  "cut_after_last_gt s = rev (dropWhile (\<lambda>c. c \<noteq> CHR ''>'') (rev s))"

definition get_outerhtml :: "(element \<Rightarrow> string) \<Rightarrow> element \<Rightarrow> string" where
  "get_outerhtml tostring html_node = cut_after_last_gt (tostring html_node)"

text \<open>
  \<^verbatim>\<open>_get_innerhtml\<close> then removes one tag at the start (\<^verbatim>\<open>^<[^<>]*?>\<close>) and one tag at the
  end (\<^verbatim>\<open><[^<>]*?>$\<close>, where \<^verbatim>\<open>$\<close> also matches before a final newline). A string the
  pattern does not match is left as it is.
\<close>

definition no_angle :: "char \<Rightarrow> bool" where
  "no_angle c = (c \<noteq> CHR ''<'' \<and> c \<noteq> CHR ''>'')"

definition cut_first_tag :: "string \<Rightarrow> string" where
  "cut_first_tag s =
     (case s of
        [] \<Rightarrow> []
      | c # cs \<Rightarrow>
          if c = CHR ''<'' \<and> starts_with ''>'' (dropWhile no_angle cs)
          then drop 1 (dropWhile no_angle cs) else s)"

fun cut_last_tag :: "string \<Rightarrow> string" where
  "cut_last_tag [] = []"
| "cut_last_tag (c # cs) =
     (let r = dropWhile no_angle cs
      in if c = CHR ''<'' \<and> starts_with ''>'' r \<and> (drop 1 r = [] \<or> drop 1 r = [CHR 0x0A])
         then drop 1 r else c # cut_last_tag cs)"

definition get_innerhtml :: "(element \<Rightarrow> string) \<Rightarrow> element \<Rightarrow> string" where
  "get_innerhtml tostring html_node = cut_last_tag (cut_first_tag (get_outerhtml tostring html_node))"

section \<open>Parsing a date\<close>

text \<open>
  \<^verbatim>\<open>datetime.datetime.strptime(s, "%Y-%m-%d")\<close>, the only call of \<^verbatim>\<open>strptime\<close> in the module
  (\<^verbatim>\<open>date_format\<close>, line 154). The library turns the format into the regular expression
  \<^verbatim>\<open>(?P<Y>\d\d\d\d)-(?P<m>1[0-2]|0[1-9]|[1-9])-(?P<d>3[0-1]|[1-2]\d|0[1-9]|[1-9]| [1-9])\<close>,
  matches it at the start of the text, raises ValueError when it does not match or when
  text is left after the match, and builds the date from the integers of the three
  groups, which raises ValueError when they name no calendar date.

  A matcher returns the ways it can match at the start of a text, as pairs of the matched
  text and the rest, in the order in which the regular expression engine tries them; the
  match the engine reports is the first of the list.
\<close>

record datetime =
  year :: int
  month :: int
  day :: int

definition one_of :: "string \<Rightarrow> char \<Rightarrow> bool" where
  "one_of cs c = (c \<in> set cs)"

definition alt1 :: "(char \<Rightarrow> bool) \<Rightarrow> string \<Rightarrow> (string \<times> string) list" where
  "alt1 p s = (case s of c # r \<Rightarrow> if p c then [([c], r)] else [] | [] \<Rightarrow> [])"

definition alt2 :: "(char \<Rightarrow> bool) \<Rightarrow> (char \<Rightarrow> bool) \<Rightarrow> string \<Rightarrow> (string \<times> string) list" where
  "alt2 p q s = (case s of c # d # r \<Rightarrow> if p c \<and> q d then [([c, d], r)] else [] | _ \<Rightarrow> [])"

definition year_alts :: "string \<Rightarrow> (string \<times> string) list" where
  "year_alts s =
     (case s of
        a # b # c # d # r \<Rightarrow>
          if is_digit a \<and> is_digit b \<and> is_digit c \<and> is_digit d then [([a, b, c, d], r)] else []
      | _ \<Rightarrow> [])"

definition month_alts :: "string \<Rightarrow> (string \<times> string) list" where
  "month_alts s =
     alt2 (one_of ''1'') (one_of ''012'') s @ alt2 (one_of ''0'') (one_of ''123456789'') s
     @ alt1 (one_of ''123456789'') s"

definition day_alts :: "string \<Rightarrow> (string \<times> string) list" where
  "day_alts s =
     alt2 (one_of ''3'') (one_of ''01'') s @ alt2 (one_of ''12'') is_digit s
     @ alt2 (one_of ''0'') (one_of ''123456789'') s @ alt1 (one_of ''123456789'') s
     @ alt2 (one_of '' '') (one_of ''123456789'') s"

definition lit :: "char \<Rightarrow> string \<Rightarrow> string list" where
  "lit c s = (case s of x # r \<Rightarrow> if x = c then [r] else [] | [] \<Rightarrow> [])"

definition match_ymd :: "string \<Rightarrow> (string \<times> string \<times> string \<times> string) list" where
  "match_ymd s =
     [(y, m, d, r5). (y, r1) \<leftarrow> year_alts s, r2 \<leftarrow> lit CHR ''-'' r1, (m, r3) \<leftarrow> month_alts r2,
                      r4 \<leftarrow> lit CHR ''-'' r3, (d, r5) \<leftarrow> day_alts r4]"

text \<open>\<^verbatim>\<open>int(g)\<close> on a group of the match: decimal digits, after a space in one form of the day.\<close>

definition group_int :: "string \<Rightarrow> int" where
  "group_int g = foldl (\<lambda>n c. 10 * n + (int (of_char c) - 48)) 0 (filter is_digit g)"

text \<open>
  \<^verbatim>\<open>datetime.date(y, m, d)\<close>: the year is between 1 and 9999, the month between 1 and
  12, and the day exists in that month of the Gregorian calendar.
\<close>

definition is_leap :: "int \<Rightarrow> bool" where
  "is_leap y = (y mod 4 = 0 \<and> (y mod 100 \<noteq> 0 \<or> y mod 400 = 0))"

definition days_in_month :: "int \<Rightarrow> int \<Rightarrow> int" where
  "days_in_month y m =
     (if m = 2 then (if is_leap y then 29 else 28)
      else if m = 4 \<or> m = 6 \<or> m = 9 \<or> m = 11 then 30 else 31)"

definition make_date :: "int \<Rightarrow> int \<Rightarrow> int \<Rightarrow> error + datetime" where
  "make_date y m d =
     (if y < 1 \<or> 9999 < y then Inl ValueError
      else if m < 1 \<or> 12 < m then Inl ValueError
      else if d < 1 \<or> days_in_month y m < d then Inl ValueError
      else Inr \<lparr>year = y, month = m, day = d\<rparr>)"

definition strptime_ymd :: "string \<Rightarrow> error + datetime" where
  "strptime_ymd s =
     (case match_ymd s of
        [] \<Rightarrow> Inl ValueError
      | (y, m, d, rest) # _ \<Rightarrow>
          if rest \<noteq> [] then Inl ValueError
          else make_date (group_int y) (group_int m) (group_int d))"

text \<open>
  The texts of the format, said without the matcher: a year of four digits, a month from
  1 to 12 and a day from 1 to 31 in one or two digits (the day also as a space and one
  digit), with hyphens between them, that name a calendar date \<open>dt\<close>.
\<close>

definition month_texts :: "string list" where
  "month_texts =
     [[c]. c \<leftarrow> ''123456789''] @ [[CHR ''0'', c]. c \<leftarrow> ''123456789''] @ [''10'', ''11'', ''12'']"

definition day_texts :: "string list" where
  "day_texts =
     [[c]. c \<leftarrow> ''123456789''] @ [[CHR ''0'', c]. c \<leftarrow> ''123456789'']
     @ [[CHR '' '', c]. c \<leftarrow> ''123456789'']
     @ [[c, d]. c \<leftarrow> ''12'', d \<leftarrow> ''0123456789''] @ [''30'', ''31'']"

definition ymd_text :: "string \<Rightarrow> datetime \<Rightarrow> bool" where
  "ymd_text s dt =
     (\<exists>ys ms ds. s = ys @ ''-'' @ ms @ ''-'' @ ds \<and> length ys = 4 \<and> list_all is_digit ys
        \<and> ms \<in> set month_texts \<and> ds \<in> set day_texts
        \<and> dt = \<lparr>year = group_int ys, month = group_int ms, day = group_int ds\<rparr>
        \<and> 1 \<le> group_int ys \<and> group_int ds \<le> days_in_month (group_int ys) (group_int ms))"

section \<open>The detail fetcher\<close>

text \<open>
  What the module takes from outside: the two page fetches (\<^verbatim>\<open>requests.get\<close>, the html5
  parser and the XPath queries, each of which may raise), the \<^verbatim>\<open>int\<close> builtin's literal
  parser, \<^verbatim>\<open>util.to_timestamp\<close> and \<^verbatim>\<open>lxml.html.tostring\<close>.

  A detail page is given by the results of the three XPath queries of \<^verbatim>\<open>get_plugin_info\<close>:
  the \<^verbatim>\<open>b\<close> elements of the rating cell (line 129), the rows of the table with a
  \<^verbatim>\<open>prompt\<close> cell (line 132) and the rows of the release notes table (line 146). The three
  results are taken as separate trees: the two cleaned cells are not part of the other
  rows the function reads.
\<close>

record detail_page =
  rating_cells :: "element list"
  body_trs :: "element list"
  download_trs :: "element list"

record env =
  fetch_listing :: "int \<Rightarrow> error + element list"
  fetch_detail :: "int \<Rightarrow> error + detail_page"
  int_literal :: "string \<Rightarrow> int option"
  to_timestamp :: "datetime \<Rightarrow> int"
  tostring :: "element \<Rightarrow> string"

text \<open>The dictionary \<^verbatim>\<open>get_plugin_info\<close> returns.\<close>

record plugin_info =
  vimorg_num_raters :: int
  author :: "string option"
  vimorg_long_desc :: string
  vimorg_install_details :: string
  updated_at :: int
  created_at :: int

text \<open>\<^verbatim>\<open>trs[i][j]\<close> and \<^verbatim>\<open>trs[i][j][k]\<close> on a list of rows.\<close>

definition cell :: "element list \<Rightarrow> int \<Rightarrow> int list \<Rightarrow> error + element" where
  "cell trs i js = and_then (py_index trs i) (\<lambda>tr. path tr js)"

text \<open>\<^verbatim>\<open>strptime(x, date_format)\<close> on a cell's text: TypeError when \<open>x\<close> is \<^verbatim>\<open>None\<close>.\<close>

definition py_strptime :: "string option \<Rightarrow> error + datetime" where
  "py_strptime x = (case x of None \<Rightarrow> Inl TypeError | Some s \<Rightarrow> strptime_ymd s)"

text \<open>Lines 129 and 130: the denominator of the rating.\<close>

definition rating_denom :: "env \<Rightarrow> detail_page \<Rightarrow> error + int" where
  "rating_denom env page =
     and_then (py_index (rating_cells page) 0) (\<lambda>rating.
       case etext rating of
         None \<Rightarrow> Inl TypeError
       | Some s \<Rightarrow> and_then (group (search_rating s)) (\<lambda>g. py_int (int_literal env) (Some g)))"

text \<open>
  Lines 132 to 144: the creator and the two cleaned nodes. The statements run in the
  order of the source, so the first one that raises decides the error.
\<close>

definition description_nodes :: "detail_page \<Rightarrow> error + string option \<times> element \<times> element" where
  "description_nodes page =
     and_then (cell (body_trs page) 0 [0]) (\<lambda>c0.
     and_then (assert_that (etext c0 = Some ''created by'')) (\<lambda>_.
     and_then (cell (body_trs page) 1 [0, 0]) (\<lambda>c1.
     and_then (cell (body_trs page) 6 [0]) (\<lambda>c6.
     and_then (assert_that (etext c6 = Some ''description'')) (\<lambda>_.
     and_then (cell (body_trs page) 7 [0]) (\<lambda>description_node.
     and_then (clean_text_node description_node) (\<lambda>description_node'.
     and_then (cell (body_trs page) 9 [0]) (\<lambda>c9.
     and_then (assert_that (etext c9 = Some ''install details'')) (\<lambda>_.
     and_then (cell (body_trs page) 10 [0]) (\<lambda>install_node.
     and_then (clean_text_node install_node) (\<lambda>install_node'.
       Inr (etext c1, description_node', install_node'))))))))))))"

text \<open>Lines 146 to 156: the two dates of the release notes table.\<close>

definition release_dates :: "detail_page \<Rightarrow> error + datetime \<times> datetime" where
  "release_dates page =
     and_then (cell (download_trs page) 0 [2]) (\<lambda>h.
     and_then (assert_that (etext h = Some ''date'')) (\<lambda>_.
     and_then (cell (download_trs page) 1 [2, 0]) (\<lambda>u.
     and_then (cell (download_trs page) (- 1) [2, 0]) (\<lambda>c.
     and_then (py_strptime (etext u)) (\<lambda>updated_date.
     and_then (py_strptime (etext c)) (\<lambda>created_date.
       Inr (updated_date, created_date)))))))"

definition get_plugin_info :: "env \<Rightarrow> int \<Rightarrow> error + plugin_info" where
  "get_plugin_info env script_id =
     and_then (fetch_detail env script_id) (\<lambda>page.
     and_then (rating_denom env page) (\<lambda>denom.
     and_then (description_nodes page) (\<lambda>nodes.
     and_then (release_dates page) (\<lambda>dates.
       Inr \<lparr>vimorg_num_raters = denom,
            author = fst nodes,
            vimorg_long_desc = get_innerhtml (tostring env) (fst (snd nodes)),
            vimorg_install_details = get_innerhtml (tostring env) (snd (snd nodes)),
            updated_at = to_timestamp env (fst dates),
            created_at = to_timestamp env (snd dates)\<rparr>))))"

section \<open>The listing fetcher\<close>

text \<open>
  The merged dictionary of line 57: the listing's keys together with the keys of
  \<^verbatim>\<open>plugin_info\<close> (the two sets of keys are disjoint).
\<close>

record plugin = plugin_info +
  vimorg_url :: string
  vim_script_id :: int
  name :: "string option"
  vimorg_type :: "string option"
  vimorg_rating :: int
  vimorg_downloads :: int
  vimorg_short_desc :: "string option"

text \<open>
  One call of \<^verbatim>\<open>logging.exception\<close> (line 52): the name and the identifier of the
  message, and the exception that is logged with it.
\<close>

record log_entry =
  log_name :: "string option"
  log_script_id :: int
  log_error :: error

text \<open>
  \<^verbatim>\<open>get_plugin_list\<close> is a generator. A run of it to its end is the list of the
  dictionaries it yields, the log entries it writes, and the exception that ends it, if
  one does.
\<close>

record run =
  yielded :: "plugin list"
  logged :: "log_entry list"
  raised :: "error option"

text \<open>Lines 40 to 43, before the \<^verbatim>\<open>try\<close>: the link, the identifier and the name of a row.\<close>

definition row_key :: "env \<Rightarrow> element \<Rightarrow> error + string \<times> int \<times> string option" where
  "row_key env tr =
     and_then (path tr [0, 0]) (\<lambda>a.
     and_then (attrib_get a ''href'') (\<lambda>link.
     and_then (group (search_script_id link)) (\<lambda>g.
     and_then (py_int (int_literal env) (Some g)) (\<lambda>script_id.
       Inr (link, script_id, etext a)))))"

text \<open>Lines 57 to 66, after the \<^verbatim>\<open>try\<close>: the dictionary of a row whose detail fetch returned.\<close>

definition merge_row :: "env \<Rightarrow> element \<Rightarrow> int \<Rightarrow> plugin_info \<Rightarrow> error + plugin" where
  "merge_row env tr script_id info =
     and_then (path tr [0, 0]) (\<lambda>a.
     and_then (attrib_get a ''href'') (\<lambda>href.
     and_then (path tr [1]) (\<lambda>c1.
     and_then (path tr [2]) (\<lambda>c2.
     and_then (py_int (int_literal env) (etext c2)) (\<lambda>rating.
     and_then (path tr [3]) (\<lambda>c3.
     and_then (py_int (int_literal env) (etext c3)) (\<lambda>downloads.
     and_then (path tr [4, 0]) (\<lambda>c4.
       Inr \<lparr>vimorg_num_raters = vimorg_num_raters info,
            author = author info,
            vimorg_long_desc = vimorg_long_desc info,
            vimorg_install_details = vimorg_install_details info,
            updated_at = updated_at info,
            created_at = created_at info,
            vimorg_url = ''http://www.vim.org/scripts/'' @ href,
            vim_script_id = script_id,
            name = etext a,
            vimorg_type = etext c1,
            vimorg_rating = rating,
            vimorg_downloads = downloads,
            vimorg_short_desc = etext c4\<rparr>))))))))"

text \<open>
  What a merged record of a row is, said without \<open>merge_row\<close>: the row's link, identifier
  and name were read and its detail fetch returned a mapping; the record has the URL made
  from the link, the identifier, the name, the type text of the second cell, the integers
  of the third and the fourth cell and the text of the first element of the fifth cell;
  and it has the six entries of the detail mapping.
\<close>

definition is_merged_record :: "env \<Rightarrow> element \<Rightarrow> plugin \<Rightarrow> bool" where
  "is_merged_record env tr p =
     (\<exists>link sid nm info c1 c2 c3 c4.
        row_key env tr = Inr (link, sid, nm) \<and> get_plugin_info env sid = Inr info
        \<and> path tr [1] = Inr c1 \<and> path tr [2] = Inr c2 \<and> path tr [3] = Inr c3
        \<and> path tr [4, 0] = Inr c4
        \<and> vimorg_url p = ''http://www.vim.org/scripts/'' @ link
        \<and> vim_script_id p = sid \<and> name p = nm \<and> vimorg_type p = etext c1
        \<and> py_int (int_literal env) (etext c2) = Inr (vimorg_rating p)
        \<and> py_int (int_literal env) (etext c3) = Inr (vimorg_downloads p)
        \<and> vimorg_short_desc p = etext c4
        \<and> vimorg_num_raters p = vimorg_num_raters info \<and> author p = author info
        \<and> vimorg_long_desc p = vimorg_long_desc info
        \<and> vimorg_install_details p = vimorg_install_details info
        \<and> updated_at p = updated_at info \<and> created_at p = created_at info)"

text \<open>
  The loop of line 39 over the rows; \<open>scrape_row\<close> is its body on one row. Only the call
  of \<^verbatim>\<open>get_plugin_info\<close> stands inside the \<^verbatim>\<open>try\<close>: its exception is logged and the
  loop goes on with the next row (\<^verbatim>\<open>continue\<close>). An exception of lines 40 to 43 or of
  lines 57 to 66 leaves the generator: what was yielded before stays yielded, and no
  further row is read.
\<close>

datatype row_result = Raised error | Logged log_entry | Yielded plugin

definition scrape_row :: "env \<Rightarrow> element \<Rightarrow> row_result" where
  "scrape_row env tr =
     (case row_key env tr of
        Inl e \<Rightarrow> Raised e
      | Inr (link, script_id, nm) \<Rightarrow>
          (case get_plugin_info env script_id of
             Inl e \<Rightarrow> Logged \<lparr>log_name = nm, log_script_id = script_id, log_error = e\<rparr>
           | Inr info \<Rightarrow>
               (case merge_row env tr script_id info of
                  Inl e \<Rightarrow> Raised e
                | Inr p \<Rightarrow> Yielded p)))"

fun scrape_rows :: "env \<Rightarrow> element list \<Rightarrow> run" where
  "scrape_rows env [] = \<lparr>yielded = [], logged = [], raised = None\<rparr>"
| "scrape_rows env (tr # trs) =
     (case scrape_row env tr of
        Raised e \<Rightarrow> \<lparr>yielded = [], logged = [], raised = Some e\<rparr>
      | Logged l \<Rightarrow> (let r = scrape_rows env trs in r\<lparr>logged := l # logged r\<rparr>)
      | Yielded p \<Rightarrow> (let r = scrape_rows env trs in r\<lparr>yielded := p # yielded r\<rparr>))"

text \<open>
  Lines 28 to 39: the rows of the located table are fetched for \<open>num\<close>, and the loop runs
  over \<^verbatim>\<open>scripts[2:-1]\<close>.
\<close>

definition get_plugin_list :: "env \<Rightarrow> int \<Rightarrow> run" where
  "get_plugin_list env num =
     (case fetch_listing env num of
        Inl e \<Rightarrow> \<lparr>yielded = [], logged = [], raised = Some e\<rparr>
      | Inr scripts \<Rightarrow> scrape_rows env (py_slice scripts 2 (- 1)))"

section \<open>Example pages\<close>

text \<open>Fragments as the html5 parser builds them, used to run the cleaner.\<close>

definition frag_breaks :: element where
  "frag_breaks =
     Element ''td'' [] None
       [Element ''br'' [] None [] None,
        Element ''br'' [] None [] (Some ''one ''),
        Element ''br'' [] None [] (Some ''see ''),
        Element ''a'' [(''href'', ''http://vim.org'')] (Some ''http://vim.org'') [] (Some '' two'')]
       None"

definition frag_bold_break :: element where
  "frag_bold_break =
     Element ''td'' [] (Some ''x'')
       [Element ''b'' [] (Some ''bold'') [] (Some ''y''),
        Element ''br'' [] None [] (Some ''z'')]
       None"

definition frag_para_break :: element where
  "frag_para_break =
     Element ''td'' [] (Some ''intro'')
       [Element ''p'' [] None [Element ''i'' [] (Some ''x'') [] None] None,
        Element ''br'' [] None [] (Some ''more'')]
       None"

definition frag_para_link :: element where
  "frag_para_link =
     Element ''td'' [] (Some ''intro'')
       [Element ''p'' [] None [Element ''i'' [] (Some ''x'') [] None] None,
        Element ''a'' [(''href'', ''http://vim.org'')] (Some ''http://vim.org'') [] None]
       None"

definition frag_image_link :: element where
  "frag_image_link =
     Element ''td'' [] (Some ''see '')
       [Element ''a'' [(''href'', ''tips.php'')] None [Element ''img'' [] None [] None] None]
       None"

definition frag_bold_link :: element where
  "frag_bold_link =
     Element ''td'' [] (Some ''x'')
       [Element ''b'' [] (Some ''bold'') [] (Some ''y''),
        Element ''a'' [(''href'', ''h'')] (Some ''h'') [] (Some ''z'')]
       None"

definition frag_empty_link :: element where
  "frag_empty_link =
     Element ''td'' [] (Some ''see '') [Element ''a'' [(''href'', ''tips.php'')] None [] None] None"

definition frag_bold :: element where
  "frag_bold = Element ''td'' [] None [Element ''b'' [] (Some ''bold'') [] (Some '' text'')] None"

text \<open>
  A listing table and a detail page as the parser builds them, and one choice of the
  outside functions: a literal parser that reads runs of decimal digits, and a fetch that
  fails for script 4325, returns a page whose newest date is written \<^verbatim>\<open>April 1st, 2013\<close>
  for script 4326 and one whose newest date is written \<^verbatim>\<open>2013-4-1\<close> for script 4324.
\<close>

definition text_cell :: "string \<Rightarrow> element" where
  "text_cell s = Element ''td'' [] (Some s) [] None"

definition table_row :: "element list \<Rightarrow> element" where
  "table_row cells = Element ''tr'' [] None cells None"

definition listing_row :: "string \<Rightarrow> string \<Rightarrow> string option \<Rightarrow> element" where
  "listing_row script_id nm rating =
     table_row [Element ''td'' [] None
           [Element ''a'' [(''href'', ''script.php?script_id='' @ script_id)] (Some nm) [] None] None,
         text_cell ''utility'',
         Element ''td'' [] rating [] None,
         text_cell ''345'',
         Element ''td'' [] None [Element ''i'' [] (Some ''a plugin'') [] None] None]"

definition sample_table :: "element list" where
  "sample_table =
     [table_row [Element ''th'' [] (Some ''Search Results'') [] None],
      table_row [Element ''th'' [] (Some ''Script'') [] None, Element ''th'' [] (Some ''Type'') [] None],
      listing_row ''4327'' ''alpha'' (Some ''12''),
      listing_row ''4325'' ''vimcat'' (Some ''7''),
      listing_row ''4320'' ''gamma'' (Some ''3''),
      table_row [text_cell ''next'']]"

definition malformed_table :: "element list" where
  "malformed_table =
     [table_row [Element ''th'' [] (Some ''Search Results'') [] None],
      table_row [Element ''th'' [] (Some ''Script'') [] None, Element ''th'' [] (Some ''Type'') [] None],
      listing_row ''4327'' ''alpha'' (Some ''12''),
      listing_row ''4325'' ''vimcat'' (Some ''7''),
      listing_row ''4322'' ''beta'' None,
      listing_row ''4320'' ''gamma'' (Some ''3''),
      table_row [text_cell ''next'']]"

definition release_row :: "string \<Rightarrow> element" where
  "release_row date =
     table_row [text_cell ''plugin.vim'', text_cell ''1.0'',
         Element ''td'' [] None [Element ''i'' [] (Some date) [] None] None]"

definition sample_page :: "string \<Rightarrow> detail_page" where
  "sample_page updated =
     \<lparr>rating_cells = [Element ''b'' [] (Some ''12/5'') [] None],
      body_trs =
        [table_row [text_cell ''created by''],
         table_row [Element ''td'' [] None [Element ''a'' [(''href'', ''/account/profile.php'')] (Some ''Bram'') [] None] None],
         table_row [text_cell '' ''],
         table_row [text_cell ''script type''],
         table_row [text_cell ''utility''],
         table_row [text_cell '' ''],
         table_row [text_cell ''description''],
         table_row [frag_breaks],
         table_row [text_cell '' ''],
         table_row [text_cell ''install details''],
         table_row [frag_bold]],
      download_trs =
        [table_row [Element ''th'' [] (Some ''package'') [] None,
             Element ''th'' [] (Some ''script version'') [] None,
             Element ''th'' [] (Some ''date'') [] None],
         release_row updated,
         release_row ''2012-11-05'',
         release_row ''2012-01-15'']\<rparr>"

definition sample_int :: "string \<Rightarrow> int option" where
  "sample_int s =
     (if s \<noteq> [] \<and> list_all is_digit s
      then Some (foldl (\<lambda>n c. 10 * n + (int (of_char c) - 48)) 0 s) else None)"

definition sample_env :: env where
  "sample_env =
     \<lparr>fetch_listing = (\<lambda>num. Inr sample_table),
      fetch_detail = (\<lambda>script_id.
        if script_id = 4325 then Inl (External ''no null bytes or control chars'')
        else if script_id = 4326 then Inr (sample_page ''April 1st, 2013'')
        else if script_id = 4324 then Inr (sample_page ''2013-4-1'')
        else Inr (sample_page ''2013-04-01'')),
      int_literal = sample_int,
      to_timestamp = (\<lambda>d. (year d * 12 + month d) * 31 + day d),
      tostring = (\<lambda>e. ''<td>'' @ text_content e @ ''</td>'')\<rparr>"

definition malformed_env :: env where
  "malformed_env = sample_env\<lparr>fetch_listing := (\<lambda>num. Inr malformed_table)\<rparr>"

section \<open>Properties of the fragment cleaner\<close>

lemma and_then_Inr_iff: "(and_then m f = Inr y) = (\<exists>x. m = Inr x \<and> f x = Inr y)"
  by (cases m) auto

lemma set_tail_sel [simp]:
  "tag (set_tail e t) = tag e" "children (set_tail e t) = children e" "tail (set_tail e t) = t"
  "etext (set_tail e t) = etext e" "attrib (set_tail e t) = attrib e"
  by (simp_all add: set_tail_def)

lemma text_content_sel: "text_content e = chars (etext e) @ concat (map (\<lambda>c. text_content c @ chars (tail c)) (children e))"
  by (cases e) simp

lemma text_content_set_tail [simp]: "text_content (set_tail e t) = text_content e"
  by (simp add: text_content_sel[of "set_tail e t"] text_content_sel[of e])

lemma bool_prev_nonempty: "bool_element (getprevious prev) \<Longrightarrow> prev \<noteq> []"
  by (auto simp: bool_element_def getprevious_def)

lemma iadd_prev_tail_tags:
  "prev \<noteq> [] \<Longrightarrow> iadd_prev_tail prev s = Inr prev' \<Longrightarrow> map tag prev' = map tag prev"
  by (cases prev rule: rev_cases) (auto simp: iadd_prev_tail_def split: option.splits)

lemma iadd_prev_tail_bool:
  "prev \<noteq> [] \<Longrightarrow> iadd_prev_tail prev s = Inr prev' \<Longrightarrow> prev' \<noteq> []"
  by (auto simp: iadd_prev_tail_def split: option.splits)

lemma replace_link_tags:
  assumes "replace_link (pt, prev) e t = Inr (pt', prev')"
  shows "map tag prev' = map tag prev"
proof (cases "bool_element (getprevious prev)")
  case True
  then have ne: "prev \<noteq> []" by (rule bool_prev_nonempty)
  from assms True obtain prev1 where p1: "iadd_prev_tail prev t = Inr prev1"
    and rest: "(if truthy (tail e)
                then and_then (iadd_prev_tail prev1 (chars (tail e))) (\<lambda>prev2. Inr (pt, prev2))
                else Inr (pt, prev1)) = Inr (pt', prev')"
    by (auto simp: replace_link_def and_then_Inr_iff)
  from p1 ne have t1: "map tag prev1 = map tag prev" and ne1: "prev1 \<noteq> []"
    by (auto dest: iadd_prev_tail_tags iadd_prev_tail_bool)
  from rest t1 ne1 show ?thesis
    by (auto simp: and_then_Inr_iff split: if_splits dest: iadd_prev_tail_tags)
next
  case False
  with assms show ?thesis
    by (auto simp: replace_link_def and_then_Inr_iff iadd_text_def split: if_splits option.splits)
qed

lemma clean_elem_tags:
  "clean_elem (pt, prev) e = Inr (pt', prev') \<Longrightarrow>
   map tag prev' = map tag prev @ (if tag e = ''br'' \<or> tag e = ''a'' then [] else [tag e])"
  by (auto simp: clean_elem_def and_then_Inr_iff iadd_text_def split: if_splits option.splits
      dest!: bool_prev_nonempty dest: iadd_prev_tail_tags replace_link_tags)

lemma clean_loop_tags:
  "clean_loop st todo = Inr st' \<Longrightarrow>
   map tag (snd st') = map tag (snd st) @ filter (\<lambda>t. t \<noteq> ''br'' \<and> t \<noteq> ''a'') (map tag todo)"
proof (induction todo arbitrary: st)
  case Nil
  then show ?case by simp
next
  case (Cons e rest)
  from Cons.prems obtain st1 where s1: "clean_elem st e = Inr st1" and s2: "clean_loop st1 rest = Inr st'"
    by (auto simp: and_then_Inr_iff)
  from s1 have "map tag (snd st1) = map tag (snd st) @ (if tag e = ''br'' \<or> tag e = ''a'' then [] else [tag e])"
    using clean_elem_tags[of "fst st" "snd st" e "fst st1" "snd st1"] by simp
  with Cons.IH[OF s2] show ?case by auto
qed

lemma clean_text_node_tags:
  "clean_text_node node = Inr node' \<Longrightarrow>
   map tag (children node') = filter (\<lambda>t. t \<noteq> ''br'' \<and> t \<noteq> ''a'') (map tag (children node))"
  by (auto simp: clean_text_node_def Let_def and_then_Inr_iff dest!: clean_loop_tags)

lemma clean_loop_other:
  "\<forall>c\<in>set todo. tag c \<noteq> ''br'' \<and> tag c \<noteq> ''a'' \<Longrightarrow> clean_loop (pt, prev) todo = Inr (pt, prev @ todo)"
  by (induction todo arbitrary: prev) (auto simp: clean_elem_def)

lemma clean_elem_no_text:
  "tag c = ''a'' \<Longrightarrow> etext c = None \<Longrightarrow> \<exists>e. clean_elem st c = Inl e"
  by (cases st) (auto simp: clean_elem_def split: option.splits)

lemma clean_loop_no_text:
  "c \<in> set todo \<Longrightarrow> tag c = ''a'' \<Longrightarrow> etext c = None \<Longrightarrow> \<exists>e. clean_loop st todo = Inl e"
proof (induction todo arbitrary: st)
  case Nil
  then show ?case by simp
next
  case (Cons x rest)
  show ?case
  proof (cases "clean_elem st x")
    case (Inl e)
    then show ?thesis by simp
  next
    case (Inr st1)
    with Cons.prems clean_elem_no_text[of x st] have "c \<in> set rest" by auto
    from Cons.IH[OF this Cons.prems(2,3)] Inr show ?thesis by simp
  qed
qed

lemmas frag_defs = frag_breaks_def frag_bold_break_def frag_para_break_def
  frag_image_link_def frag_bold_def frag_para_link_def frag_bold_link_def frag_empty_link_def
lemmas clean_defs = clean_text_node_def clean_elem_def replace_link_def truthy_def chars_def
  getprevious_def bool_element_def iadd_text_def iadd_prev_tail_def set_tail_def

text \<open>
  The loop keeps a leading text it has: after lines 80 and 81 the parent's leading text is
  a string for as long as the loop runs, so an append to it never raises.
\<close>

lemma clean_elem_text_Some:
  "pt \<noteq> None \<Longrightarrow> clean_elem (pt, prev) e = Inr st' \<Longrightarrow> fst st' \<noteq> None"
  by (auto simp: clean_elem_def replace_link_def and_then_Inr_iff iadd_text_def
      split: if_splits option.splits)

lemma clean_loop_text_Some:
  "fst st \<noteq> None \<Longrightarrow> clean_loop st todo = Inr st' \<Longrightarrow> fst st' \<noteq> None"
proof (induction todo arbitrary: st)
  case Nil
  then show ?case by simp
next
  case (Cons e rest)
  from Cons.prems(2) obtain st1 where s1: "clean_elem st e = Inr st1" and s2: "clean_loop st1 rest = Inr st'"
    by (auto simp: and_then_Inr_iff)
  from Cons.prems(1) s1 have "fst st1 \<noteq> None"
    using clean_elem_text_Some[of "fst st" "snd st" e st1] by simp
  from Cons.IH[OF this s2] show ?case .
qed

lemma clean_elem_domain:
  assumes "tag e = ''br'' \<or> (tag e = ''a'' \<and> recognised_link e)"
  shows "\<exists>p'. clean_elem (Some p, []) e = Inr (Some p', [])"
  using assms
  by (auto simp: clean_elem_def replace_link_def recognised_link_def getprevious_def
      bool_element_def iadd_text_def split: option.splits)

lemma clean_loop_domain:
  "\<forall>e\<in>set todo. tag e = ''br'' \<or> (tag e = ''a'' \<and> recognised_link e) \<Longrightarrow>
   \<exists>p'. clean_loop (Some p, []) todo = Inr (Some p', [])"
proof (induction todo arbitrary: p)
  case Nil
  then show ?case by simp
next
  case (Cons e rest)
  then have "tag e = ''br'' \<or> (tag e = ''a'' \<and> recognised_link e)" by simp
  from clean_elem_domain[OF this, of p] obtain p1 where "clean_elem (Some p, []) e = Inr (Some p1, [])"
    by blast
  moreover from Cons have "\<exists>p'. clean_loop (Some p1, []) rest = Inr (Some p', [])" by simp
  ultimately show ?case by simp
qed

lemma descendant_tags_sel: "descendant_tags e = concat (map (\<lambda>c. tag c # descendant_tags c) (children e))"
  by (cases e) simp

lemma chars_not_truthy: "\<not> truthy x \<Longrightarrow> chars x = []"
  by (auto simp: truthy_def chars_def split: option.splits)

text \<open>
  With no element kept before it, a \<^verbatim>\<open>br\<close> or an \<^verbatim>\<open>a\<close> that the loop gets past has added
  its kept text to the leading text, and the link was a recognised one.
\<close>

lemma clean_elem_first:
  assumes "tag e = ''br'' \<or> tag e = ''a''" and "clean_elem (Some p, []) e = Inr st"
  shows "st = (Some (p @ kept_text e), []) \<and> (tag e = ''a'' \<longrightarrow> recognised_link e)"
  using assms
  by (cases "truthy (tail e)")
    (auto simp: clean_elem_def replace_link_def recognised_link_def kept_text_def getprevious_def
      bool_element_def iadd_text_def and_then_Inr_iff chars_not_truthy
      split: option.splits if_splits)

lemma clean_loop_first:
  "\<forall>e\<in>set todo. tag e = ''br'' \<or> tag e = ''a'' \<Longrightarrow> clean_loop (Some p, []) todo = Inr st \<Longrightarrow>
   st = (Some (p @ concat (map kept_text todo)), [])
   \<and> (\<forall>e\<in>set todo. tag e = ''a'' \<longrightarrow> recognised_link e)"
proof (induction todo arbitrary: p)
  case Nil
  then show ?case by simp
next
  case (Cons e rest)
  from Cons.prems(2) obtain st1 where s1: "clean_elem (Some p, []) e = Inr st1"
    and s2: "clean_loop st1 rest = Inr st"
    by (auto simp: and_then_Inr_iff)
  from Cons.prems(1) have e: "tag e = ''br'' \<or> tag e = ''a''" by simp
  from clean_elem_first[OF e s1] have st1: "st1 = (Some (p @ kept_text e), [])"
    and r: "tag e = ''a'' \<longrightarrow> recognised_link e"
    by simp_all
  from Cons.prems(1) have "\<forall>e\<in>set rest. tag e = ''br'' \<or> tag e = ''a''" by simp
  from Cons.IH[OF this s2[unfolded st1]] r show ?case by simp
qed

lemma clean_text_node_first:
  assumes dom: "\<forall>c\<in>set (children node). tag c = ''br'' \<or> tag c = ''a''"
    and run: "clean_text_node node = Inr node'"
  shows "text_content node' = chars (etext node) @ concat (map kept_text (children node))
         \<and> (\<forall>c\<in>set (children node). tag c = ''a'' \<longrightarrow> recognised_link c)"
proof (cases "children node = []")
  case True
  with run have "node' = Element (tag node) (attrib node) (etext node) [] (tail node)"
    by (auto simp: clean_text_node_def)
  with True show ?thesis by simp
next
  case False
  let ?text0 = "if children node \<noteq> [] \<and> \<not> truthy (etext node) then Some [] else etext node"
  from False have t0: "?text0 = Some (chars (etext node))"
    by (cases "etext node") (auto simp: truthy_def chars_def)
  from run obtain st where loop: "clean_loop (?text0, []) (children node) = Inr st"
    and node': "node' = Element (tag node) (attrib node) (fst st) (snd st) (tail node)"
    by (auto simp: clean_text_node_def Let_def and_then_Inr_iff)
  from loop have "clean_loop (Some (chars (etext node)), []) (children node) = Inr st"
    unfolding t0 .
  from clean_loop_first[OF dom this] node' show ?thesis
    by (simp add: chars_def)
qed

text \<open>
  Claim C1. When the cleaner returns, no child of the fragment is a \<^verbatim>\<open>br\<close> or an \<^verbatim>\<open>a\<close>,
  whatever the input was, also after consecutive \<^verbatim>\<open>br\<close> children or a \<^verbatim>\<open>br\<close> followed by
  an \<^verbatim>\<open>a\<close>. On the fragments the cleaner is made for, those whose children are \<^verbatim>\<open>br\<close>
  and \<^verbatim>\<open>a\<close> elements, no element at all is left: the fragment holds text only, namely its
  leading text followed by what the loop keeps of each child in document order, and every
  link was a recognised one. And on such a fragment the cleaner does return when every
  link has a recognised shape.
\<close>

theorem clean_text_node_only_text:
  "(clean_text_node node = Inr node' \<longrightarrow>
      (\<forall>c\<in>set (children node'). tag c \<noteq> ''br'' \<and> tag c \<noteq> ''a'')
      \<and> ((\<forall>c\<in>set (children node). tag c = ''br'' \<or> tag c = ''a'') \<longrightarrow>
           children node' = [] \<and> descendant_tags node' = []
           \<and> text_content node' = chars (etext node) @ concat (map kept_text (children node))
           \<and> (\<forall>c\<in>set (children node). tag c = ''a'' \<longrightarrow> recognised_link c)))
   \<and> ((\<forall>c\<in>set (children node). tag c = ''br'' \<or> (tag c = ''a'' \<and> recognised_link c)) \<longrightarrow>
        (\<exists>cleaned. clean_text_node node = Inr cleaned \<and> children cleaned = []))"
proof (intro conjI impI)
  assume run: "clean_text_node node = Inr node'"
  then have tags: "map tag (children node') = filter (\<lambda>t. t \<noteq> ''br'' \<and> t \<noteq> ''a'') (map tag (children node))"
    by (rule clean_text_node_tags)
  have "\<forall>t\<in>set (map tag (children node')). t \<noteq> ''br'' \<and> t \<noteq> ''a''"
    unfolding tags by simp
  then show "\<forall>c\<in>set (children node'). tag c \<noteq> ''br'' \<and> tag c \<noteq> ''a''"
    by simp
  assume dom: "\<forall>c\<in>set (children node). tag c = ''br'' \<or> tag c = ''a''"
  then have "filter (\<lambda>t. t \<noteq> ''br'' \<and> t \<noteq> ''a'') (map tag (children node)) = []"
    by (auto simp: filter_empty_conv)
  with tags show none: "children node' = []" by simp
  then show "descendant_tags node' = []"
    by (simp add: descendant_tags_sel[of node'])
  from clean_text_node_first[OF dom run]
  show "text_content node' = chars (etext node) @ concat (map kept_text (children node))"
    and "\<forall>c\<in>set (children node). tag c = ''a'' \<longrightarrow> recognised_link c"
    by simp_all
next
  assume dom: "\<forall>c\<in>set (children node). tag c = ''br'' \<or> (tag c = ''a'' \<and> recognised_link c)"
  let ?text0 = "if children node \<noteq> [] \<and> \<not> truthy (etext node) then Some [] else etext node"
  show "\<exists>cleaned. clean_text_node node = Inr cleaned \<and> children cleaned = []"
  proof (cases "children node = []")
    case True
    then show ?thesis by (simp add: clean_text_node_def)
  next
    case False
    then have "?text0 \<noteq> None"
      by (cases "etext node") (auto simp: truthy_def)
    then obtain p where "?text0 = Some p"
      by blast
    with clean_loop_domain[OF dom, of p] obtain p' where
      "clean_loop (?text0, []) (children node) = Inr (Some p', [])"
      by auto
    then show ?thesis by (simp add: clean_text_node_def Let_def)
  qed
qed

text \<open>
  Three \<^verbatim>\<open>br\<close> in a row and a link right after the last one: all four are removed and
  their texts are joined in document order.
\<close>

theorem clean_text_node_only_text_witness:
  "map tag (children frag_breaks) = [''br'', ''br'', ''br'', ''a'']
   \<and> recognised_link (Element ''a'' [(''href'', ''http://vim.org'')] (Some ''http://vim.org'') [] (Some '' two''))
   \<and> clean_text_node frag_breaks = Inr (Element ''td'' [] (Some ''one see http://vim.org two'') [] None)
   \<and> children (Element ''td'' [] (Some ''one see http://vim.org two'') [] None) = []
   \<and> descendant_tags (Element ''td'' [] (Some ''one see http://vim.org two'') [] None) = []
   \<and> chars (etext frag_breaks) @ concat (map kept_text (children frag_breaks)) = ''one see http://vim.org two''
   \<and> text_content (Element ''td'' [] (Some ''one see http://vim.org two'') [] None) = ''one see http://vim.org two''"
proof -
  have h: "clean_text_node frag_breaks = Inr (Element ''td'' [] (Some ''one see http://vim.org two'') [] None)"
    by (simp add: frag_breaks_def clean_defs)
  have d: "\<forall>c\<in>set (children frag_breaks). tag c = ''br'' \<or> (tag c = ''a'' \<and> recognised_link c)"
    by (simp add: frag_breaks_def recognised_link_def)
  from clean_text_node_only_text[of frag_breaks "Element ''td'' [] (Some ''one see http://vim.org two'') [] None"]
    h d show ?thesis
    by (simp add: frag_breaks_def recognised_link_def kept_text_def chars_def)
qed

text \<open>
  Claim C9. On a fragment with no \<^verbatim>\<open>br\<close> and no \<^verbatim>\<open>a\<close> child the cleaner returns and
  changes neither the text content nor the children; a fragment with no children at all
  comes back as it was. (With children of other tags, a missing leading text becomes the
  empty string.)
\<close>

theorem clean_text_node_no_br_a:
  assumes "\<forall>c\<in>set (children node). tag c \<noteq> ''br'' \<and> tag c \<noteq> ''a''"
  shows "\<exists>node'. clean_text_node node = Inr node'
          \<and> text_content node' = text_content node
          \<and> children node' = children node \<and> tag node' = tag node
          \<and> attrib node' = attrib node \<and> tail node' = tail node
          \<and> (children node = [] \<longrightarrow> node' = node)"
proof -
  let ?text0 = "if children node \<noteq> [] \<and> \<not> truthy (etext node) then Some [] else etext node"
  let ?node' = "Element (tag node) (attrib node) ?text0 (children node) (tail node)"
  have run: "clean_text_node node = Inr ?node'"
    using clean_loop_other[OF assms, of ?text0 "[]"] by (simp add: clean_text_node_def Let_def)
  have "chars ?text0 = chars (etext node)"
    by (auto simp: truthy_def chars_def split: option.splits)
  then have "text_content ?node' = text_content node"
    by (simp add: text_content_sel[of node])
  moreover have "children node = [] \<longrightarrow> ?node' = node"
    by (cases node) simp
  ultimately show ?thesis using run by simp
qed

theorem clean_text_node_no_br_a_witness:
  "map tag (children frag_bold) = [''b'']
   \<and> clean_text_node frag_bold = Inr (Element ''td'' [] (Some []) (children frag_bold) None)
   \<and> text_content (Element ''td'' [] (Some []) (children frag_bold) None) = ''bold text''
   \<and> text_content frag_bold = ''bold text''"
proof -
  have h: "\<forall>c\<in>set (children frag_bold). tag c \<noteq> ''br'' \<and> tag c \<noteq> ''a''"
    by (simp add: frag_bold_def)
  have "clean_text_node frag_bold = Inr (Element ''td'' [] (Some []) (children frag_bold) None)"
    by (simp add: frag_bold_def clean_defs)
  with clean_text_node_no_br_a[OF h] show ?thesis
    by (simp add: frag_bold_def chars_def)
qed

text \<open>
  Claim C10. A fragment with an \<^verbatim>\<open>a\<close> child that has no text is never cleaned: the
  cleaner ends with an exception. So the cleaner returns only on fragments whose links all
  carry text.
\<close>

theorem clean_text_node_link_without_text:
  assumes "c \<in> set (children node)" and "tag c = ''a''" and "etext c = None"
  shows "\<exists>e. clean_text_node node = Inl e"
proof -
  from clean_loop_no_text[OF assms]
  obtain e where "clean_loop (if children node \<noteq> [] \<and> \<not> truthy (etext node) then Some [] else etext node, [])
                    (children node) = Inl e"
    by blast
  then show ?thesis by (simp add: clean_text_node_def Let_def)
qed

theorem clean_text_node_link_without_text_witness:
  "Element ''a'' [(''href'', ''tips.php'')] None [Element ''img'' [] None [] None] None
     \<in> set (children frag_image_link)
   \<and> (\<exists>e. clean_text_node frag_image_link = Inl e)"
proof -
  have h: "Element ''a'' [(''href'', ''tips.php'')] None [Element ''img'' [] None [] None] None
             \<in> set (children frag_image_link)"
    by (simp add: frag_image_link_def)
  from clean_text_node_link_without_text[OF h] h show ?thesis by simp
qed

text \<open>
  Claim C5 on two fragments. In \<^verbatim>\<open>x<b>bold</b>y<a href="h">h</a>z\<close> the link has a
  recognised shape and a preceding sibling without child elements: line 100 takes the
  sibling for false, and the link's text and tail go to the parent's leading text, in
  front of the \<^verbatim>\<open>b\<close> element, not to the place of the link. In \<^verbatim>\<open>see <a href="tips.php"></a>\<close>
  the link has no text and so none of the recognised shapes: line 98 raises a TypeError
  before the exception of line 112, which carries the link target and the text, is
  reached.
\<close>

theorem clean_text_node_link_misplaced:
  "clean_text_node frag_bold_link =
     Inr (Element ''td'' [] (Some ''xhz'') [Element ''b'' [] (Some ''bold'') [] (Some ''y'')] None)
   \<and> text_content frag_bold_link = ''xboldyhz''
   \<and> text_content (Element ''td'' [] (Some ''xhz'') [Element ''b'' [] (Some ''bold'') [] (Some ''y'')] None)
       = ''xhzboldy''
   \<and> clean_text_node frag_empty_link = Inl TypeError"
  by (simp add: frag_bold_link_def frag_empty_link_def clean_defs)

text \<open>
  Claim C4 on the fragment \<^verbatim>\<open>x<b>bold</b>y<br>z\<close>. The \<^verbatim>\<open>br\<close> has a preceding sibling, the
  \<^verbatim>\<open>b\<close> element, which has no child elements. Line 89 takes it for false, and the trailing
  text \<^verbatim>\<open>z\<close> goes to the parent's leading text, in front of the \<^verbatim>\<open>b\<close> element, not to
  the sibling's tail.
\<close>

theorem clean_text_node_br_after_childless_sibling:
  "clean_text_node frag_bold_break =
     Inr (Element ''td'' [] (Some ''xz'') [Element ''b'' [] (Some ''bold'') [] (Some ''y'')] None)
   \<and> text_content frag_bold_break = ''xboldyz''
   \<and> text_content (Element ''td'' [] (Some ''xz'') [Element ''b'' [] (Some ''bold'') [] (Some ''y'')] None)
       = ''xzboldy''"
  by (simp add: frag_bold_break_def clean_defs)

text \<open>
  Claim C6 on the fragment \<^verbatim>\<open>intro<p><i>x</i></p><a href="http://vim.org">http://vim.org</a>\<close>,
  whose only link has a recognised shape, and on the same fragment with a \<^verbatim>\<open>br\<close> in place
  of the link. The preceding sibling has a child element and no tail, and the append to
  its tail (line 101, line 90) raises a TypeError on \<^verbatim>\<open>None += ...\<close>.
\<close>

theorem clean_text_node_append_to_missing_tail:
  "clean_text_node frag_para_link = Inl TypeError
   \<and> clean_text_node frag_para_break = Inl TypeError"
  by (simp add: frag_para_link_def frag_para_break_def clean_defs)

section \<open>Properties of the listing fetcher\<close>

lemmas sample_defs = malformed_env_def text_cell_def table_row_def listing_row_def sample_table_def
  malformed_table_def release_row_def sample_page_def sample_int_def sample_env_def
lemmas strptime_defs = strptime_ymd_def match_ymd_def year_alts_def month_alts_def day_alts_def
  lit_def alt1_def alt2_def one_of_def group_int_def make_date_def days_in_month_def is_leap_def
lemmas fetch_defs = get_plugin_list_def scrape_row_def row_key_def merge_row_def get_plugin_info_def
  rating_denom_def description_nodes_def release_dates_def cell_def py_index_def py_slice_def
  child_def attrib_get_def py_int_def is_digit_def group_def assert_that_def py_strptime_def
  get_innerhtml_def get_outerhtml_def cut_after_last_gt_def cut_first_tag_def no_angle_def
  strptime_defs

lemmas eval_defs = sample_defs fetch_defs frag_defs clean_defs

lemma scrape_rows_length: "length (yielded (scrape_rows env trs)) \<le> length trs"
  by (induction trs) (auto simp: Let_def split: row_result.splits)

lemma py_slice_rows: "py_slice xs 2 (- 1) = map ((!) xs) [2..<length xs - 1]"
proof -
  have "py_slice xs 2 (- 1) = take (length xs - 3) (drop 2 xs)"
    by (cases "length xs \<le> 2") (auto simp: py_slice_def Let_def min_def max_def nat_diff_distrib)
  also have "\<dots> = map ((!) xs) [2..<length xs - 1]"
    by (auto simp: list_eq_iff_nth_eq)
  finally show ?thesis .
qed

lemma py_slice_table: "py_slice (h1 # h2 # rows @ [footer]) 2 (- 1) = rows"
  by (simp add: py_slice_def Let_def)

lemma scrape_rows_Yielded:
  "map (scrape_row env) xs = map Yielded ps \<Longrightarrow>
   scrape_rows env (xs @ ys) = (scrape_rows env ys)\<lparr>yielded := ps @ yielded (scrape_rows env ys)\<rparr>"
  by (induction xs arbitrary: ps) (auto simp: Let_def)

lemma scrape_rows_no_raise:
  "\<forall>tr\<in>set rows. \<forall>e. scrape_row env tr \<noteq> Raised e \<Longrightarrow>
   raised (scrape_rows env rows) = None
   \<and> length (yielded (scrape_rows env rows)) + length (logged (scrape_rows env rows)) = length rows"
  by (induction rows) (auto simp: Let_def split: row_result.splits)

lemma scrape_rows_append:
  "raised (scrape_rows env xs) = None \<Longrightarrow>
   scrape_rows env (xs @ ys) =
     \<lparr>yielded = yielded (scrape_rows env xs) @ yielded (scrape_rows env ys),
      logged = logged (scrape_rows env xs) @ logged (scrape_rows env ys),
      raised = raised (scrape_rows env ys)\<rparr>"
  by (induction xs) (auto simp: Let_def split: row_result.splits)

text \<open>
  Claim C2, as the code has it. The run over rows \<open>pre\<close> that end without an exception,
  then a row \<open>tr\<close>, then rows \<open>post\<close>:
  \<^item> when link, identifier and name of \<open>tr\<close> are read and its detail fetch raises, the
    exception is caught and logged with the name and the identifier, nothing is yielded
    for \<open>tr\<close>, and the run goes on with \<open>post\<close>;
  \<^item> when the detail fetch returns and the other summary fields are read, the merged record
    is yielded after those of \<open>pre\<close>, and the run goes on with \<open>post\<close>;
  \<^item> an exception of the lines before the \<^verbatim>\<open>try\<close> (link, identifier) or of the lines
    after it (rating, download count, the other cells) is not caught: the run ends with it
    at \<open>tr\<close>, keeps what \<open>pre\<close> yielded and logged, and reads no row of \<open>post\<close>.
  So a run over rows whose summary fields can all be read never ends with an exception,
  whatever the detail fetches do: every row is either yielded or logged.
\<close>

theorem scrape_rows_row_by_row:
  "scrape_rows env [] = \<lparr>yielded = [], logged = [], raised = None\<rparr>
   \<and> (raised (scrape_rows env pre) = None \<longrightarrow>
        (\<forall>link sid nm e. row_key env tr = Inr (link, sid, nm) \<and> get_plugin_info env sid = Inl e \<longrightarrow>
           scrape_rows env (pre @ tr # post) =
             \<lparr>yielded = yielded (scrape_rows env pre) @ yielded (scrape_rows env post),
              logged = logged (scrape_rows env pre)
                 @ \<lparr>log_name = nm, log_script_id = sid, log_error = e\<rparr> # logged (scrape_rows env post),
              raised = raised (scrape_rows env post)\<rparr>)
        \<and> (\<forall>link sid nm info p. row_key env tr = Inr (link, sid, nm)
              \<and> get_plugin_info env sid = Inr info \<and> merge_row env tr sid info = Inr p \<longrightarrow>
           scrape_rows env (pre @ tr # post) =
             \<lparr>yielded = yielded (scrape_rows env pre) @ p # yielded (scrape_rows env post),
              logged = logged (scrape_rows env pre) @ logged (scrape_rows env post),
              raised = raised (scrape_rows env post)\<rparr>)
        \<and> (\<forall>e. row_key env tr = Inl e \<longrightarrow>
           scrape_rows env (pre @ tr # post) =
             \<lparr>yielded = yielded (scrape_rows env pre), logged = logged (scrape_rows env pre),
              raised = Some e\<rparr>)
        \<and> (\<forall>link sid nm info e. row_key env tr = Inr (link, sid, nm)
              \<and> get_plugin_info env sid = Inr info \<and> merge_row env tr sid info = Inl e \<longrightarrow>
           scrape_rows env (pre @ tr # post) =
             \<lparr>yielded = yielded (scrape_rows env pre), logged = logged (scrape_rows env pre),
              raised = Some e\<rparr>))
   \<and> ((\<forall>r\<in>set rows. \<exists>link sid nm. row_key env r = Inr (link, sid, nm)
            \<and> (\<forall>info. get_plugin_info env sid = Inr info \<longrightarrow> (\<exists>p. merge_row env r sid info = Inr p))) \<longrightarrow>
        raised (scrape_rows env rows) = None
        \<and> length (yielded (scrape_rows env rows)) + length (logged (scrape_rows env rows)) = length rows)"
proof (intro conjI impI)
  show "scrape_rows env [] = \<lparr>yielded = [], logged = [], raised = None\<rparr>" by simp
next
  assume pre: "raised (scrape_rows env pre) = None"
  note app = scrape_rows_append[OF pre, of "tr # post"]
  show "\<forall>link sid nm e. row_key env tr = Inr (link, sid, nm) \<and> get_plugin_info env sid = Inl e \<longrightarrow>
           scrape_rows env (pre @ tr # post) =
             \<lparr>yielded = yielded (scrape_rows env pre) @ yielded (scrape_rows env post),
              logged = logged (scrape_rows env pre)
                 @ \<lparr>log_name = nm, log_script_id = sid, log_error = e\<rparr> # logged (scrape_rows env post),
              raised = raised (scrape_rows env post)\<rparr>"
    unfolding app by (simp add: scrape_row_def Let_def)
  show "\<forall>link sid nm info p. row_key env tr = Inr (link, sid, nm)
              \<and> get_plugin_info env sid = Inr info \<and> merge_row env tr sid info = Inr p \<longrightarrow>
           scrape_rows env (pre @ tr # post) =
             \<lparr>yielded = yielded (scrape_rows env pre) @ p # yielded (scrape_rows env post),
              logged = logged (scrape_rows env pre) @ logged (scrape_rows env post),
              raised = raised (scrape_rows env post)\<rparr>"
    unfolding app by (simp add: scrape_row_def Let_def)
  show "\<forall>e. row_key env tr = Inl e \<longrightarrow>
           scrape_rows env (pre @ tr # post) =
             \<lparr>yielded = yielded (scrape_rows env pre), logged = logged (scrape_rows env pre),
              raised = Some e\<rparr>"
    unfolding app by (simp add: scrape_row_def Let_def)
  show "\<forall>link sid nm info e. row_key env tr = Inr (link, sid, nm)
              \<and> get_plugin_info env sid = Inr info \<and> merge_row env tr sid info = Inl e \<longrightarrow>
           scrape_rows env (pre @ tr # post) =
             \<lparr>yielded = yielded (scrape_rows env pre), logged = logged (scrape_rows env pre),
              raised = Some e\<rparr>"
    unfolding app by (simp add: scrape_row_def Let_def)
next
  assume ok: "\<forall>r\<in>set rows. \<exists>link sid nm. row_key env r = Inr (link, sid, nm)
            \<and> (\<forall>info. get_plugin_info env sid = Inr info \<longrightarrow> (\<exists>p. merge_row env r sid info = Inr p))"
  have "\<forall>r\<in>set rows. \<forall>e. scrape_row env r \<noteq> Raised e"
  proof (intro ballI allI)
    fix r e
    assume "r \<in> set rows"
    with ok obtain link sid nm where k: "row_key env r = Inr (link, sid, nm)"
      and m: "\<forall>info. get_plugin_info env sid = Inr info \<longrightarrow> (\<exists>p. merge_row env r sid info = Inr p)"
      by blast
    show "scrape_row env r \<noteq> Raised e"
    proof (cases "get_plugin_info env sid")
      case (Inl err)
      with k show ?thesis by (simp add: scrape_row_def)
    next
      case (Inr info)
      with m obtain p where "merge_row env r sid info = Inr p" by blast
      with k Inr show ?thesis by (simp add: scrape_row_def)
    qed
  qed
  from scrape_rows_no_raise[OF this]
  show "raised (scrape_rows env rows) = None"
    and "length (yielded (scrape_rows env rows)) + length (logged (scrape_rows env rows)) = length rows"
    by simp_all
qed

text \<open>
  Four rows: one that is merged, one whose detail fetch fails, one with an empty rating
  cell and one more that could be merged; and a row without a link.
\<close>

theorem scrape_rows_row_by_row_witness:
  "raised (scrape_rows sample_env [listing_row ''4327'' ''alpha'' (Some ''12'')]) = None
   \<and> map vim_script_id (yielded (scrape_rows sample_env [listing_row ''4327'' ''alpha'' (Some ''12'')])) = [4327]
   \<and> row_key sample_env (listing_row ''4325'' ''vimcat'' (Some ''7''))
       = Inr (''script.php?script_id=4325'', 4325, Some ''vimcat'')
   \<and> get_plugin_info sample_env 4325 = Inl (External ''no null bytes or control chars'')
   \<and> map vim_script_id (yielded (scrape_rows sample_env
         [listing_row ''4327'' ''alpha'' (Some ''12''), listing_row ''4325'' ''vimcat'' (Some ''7''),
          listing_row ''4320'' ''gamma'' (Some ''3'')])) = [4327, 4320]
   \<and> logged (scrape_rows sample_env
         [listing_row ''4327'' ''alpha'' (Some ''12''), listing_row ''4325'' ''vimcat'' (Some ''7''),
          listing_row ''4320'' ''gamma'' (Some ''3'')])
       = [\<lparr>log_name = Some ''vimcat'', log_script_id = 4325,
           log_error = External ''no null bytes or control chars''\<rparr>]
   \<and> raised (scrape_rows sample_env
         [listing_row ''4327'' ''alpha'' (Some ''12''), listing_row ''4325'' ''vimcat'' (Some ''7''),
          listing_row ''4320'' ''gamma'' (Some ''3'')]) = None
   \<and> (\<exists>info. get_plugin_info sample_env 4322 = Inr info
         \<and> merge_row sample_env (listing_row ''4322'' ''beta'' None) 4322 info = Inl TypeError)
   \<and> scrape_rows sample_env
         [listing_row ''4327'' ''alpha'' (Some ''12''), listing_row ''4322'' ''beta'' None,
          listing_row ''4320'' ''gamma'' (Some ''3'')]
       = \<lparr>yielded = yielded (scrape_rows sample_env [listing_row ''4327'' ''alpha'' (Some ''12'')]),
          logged = [], raised = Some TypeError\<rparr>
   \<and> row_key sample_env (table_row [text_cell ''next'']) = Inl IndexError
   \<and> scrape_rows sample_env
         [listing_row ''4327'' ''alpha'' (Some ''12''), table_row [text_cell ''next''],
          listing_row ''4320'' ''gamma'' (Some ''3'')]
       = \<lparr>yielded = yielded (scrape_rows sample_env [listing_row ''4327'' ''alpha'' (Some ''12'')]),
          logged = [], raised = Some IndexError\<rparr>"
proof -
  let ?a = "listing_row ''4327'' ''alpha'' (Some ''12'')"
  let ?bad = "listing_row ''4325'' ''vimcat'' (Some ''7'')"
  let ?mal = "listing_row ''4322'' ''beta'' None"
  let ?g = "listing_row ''4320'' ''gamma'' (Some ''3'')"
  let ?foot = "table_row [text_cell ''next'']"
  have pre: "raised (scrape_rows sample_env [?a]) = None" "logged (scrape_rows sample_env [?a]) = []"
    "map vim_script_id (yielded (scrape_rows sample_env [?a])) = [4327]"
    by (simp_all add: eval_defs)
  have post: "raised (scrape_rows sample_env [?g]) = None" "logged (scrape_rows sample_env [?g]) = []"
    "map vim_script_id (yielded (scrape_rows sample_env [?g])) = [4320]"
    by (simp_all add: eval_defs)
  have k: "row_key sample_env ?bad = Inr (''script.php?script_id=4325'', 4325, Some ''vimcat'')"
    by (simp add: eval_defs)
  have f: "get_plugin_info sample_env 4325 = Inl (External ''no null bytes or control chars'')"
    by (simp add: eval_defs)
  have km: "row_key sample_env ?mal = Inr (''script.php?script_id=4322'', 4322, Some ''beta'')"
    by (simp add: eval_defs)
  have m: "\<exists>info. get_plugin_info sample_env 4322 = Inr info
         \<and> merge_row sample_env ?mal 4322 info = Inl TypeError"
    by (simp add: eval_defs)
  have kf: "row_key sample_env ?foot = Inl IndexError"
    by (simp add: eval_defs)
  have all: "\<forall>r\<in>set [?a, ?bad, ?g]. \<exists>link sid nm. row_key sample_env r = Inr (link, sid, nm)
            \<and> (\<forall>info. get_plugin_info sample_env sid = Inr info \<longrightarrow>
                  (\<exists>p. merge_row sample_env r sid info = Inr p))"
    by (simp add: eval_defs)
  from scrape_rows_row_by_row[of sample_env "[?a]" ?bad "[?g]" "[?a, ?bad, ?g]"] pre(1) k f
  have 1: "scrape_rows sample_env [?a, ?bad, ?g] =
      \<lparr>yielded = yielded (scrape_rows sample_env [?a]) @ yielded (scrape_rows sample_env [?g]),
       logged = logged (scrape_rows sample_env [?a])
          @ \<lparr>log_name = Some ''vimcat'', log_script_id = 4325,
              log_error = External ''no null bytes or control chars''\<rparr> # logged (scrape_rows sample_env [?g]),
       raised = raised (scrape_rows sample_env [?g])\<rparr>"
    by (metis append_Cons append_Nil)
  from scrape_rows_row_by_row[of sample_env "[?a]" ?bad "[?g]" "[?a, ?bad, ?g]"] all
  have 4: "raised (scrape_rows sample_env [?a, ?bad, ?g]) = None"
    by blast
  from scrape_rows_row_by_row[of sample_env "[?a]" ?mal "[?g]" "[]"] pre(1) km m
  have 2: "scrape_rows sample_env [?a, ?mal, ?g] =
      \<lparr>yielded = yielded (scrape_rows sample_env [?a]), logged = logged (scrape_rows sample_env [?a]),
       raised = Some TypeError\<rparr>"
    by (metis append_Cons append_Nil)
  from scrape_rows_row_by_row[of sample_env "[?a]" ?foot "[?g]" "[]"] pre(1) kf
  have 3: "scrape_rows sample_env [?a, ?foot, ?g] =
      \<lparr>yielded = yielded (scrape_rows sample_env [?a]), logged = logged (scrape_rows sample_env [?a]),
       raised = Some IndexError\<rparr>"
    by (metis append_Cons append_Nil)
  from 1 pre post have one: "map vim_script_id (yielded (scrape_rows sample_env [?a, ?bad, ?g])) = [4327, 4320]"
    "logged (scrape_rows sample_env [?a, ?bad, ?g])
       = [\<lparr>log_name = Some ''vimcat'', log_script_id = 4325,
           log_error = External ''no null bytes or control chars''\<rparr>]"
    by simp_all
  from pre k f one 4 m 2 kf 3 show ?thesis by simp
qed

text \<open>
  Claim C2 as stated fails on a table whose third item row has an empty rating cell. The
  first row is yielded and the failed detail fetch of the second is logged; at the third
  the detail fetch returns and \<^verbatim>\<open>int(None)\<close> on line 63 raises a TypeError that nothing
  catches and nothing logs, and the good fourth row is never read.
\<close>

theorem get_plugin_list_malformed_rating:
  "fetch_listing malformed_env 4 = Inr malformed_table
   \<and> map vim_script_id (yielded (get_plugin_list malformed_env 4)) = [4327]
   \<and> logged (get_plugin_list malformed_env 4) =
        [\<lparr>log_name = Some ''vimcat'', log_script_id = 4325,
          log_error = External ''no null bytes or control chars''\<rparr>]
   \<and> raised (get_plugin_list malformed_env 4) = Some TypeError"
  by (simp add: eval_defs)

lemma row_key_Inr:
  "row_key env tr = Inr (link, sid, nm) \<Longrightarrow>
   \<exists>a. path tr [0, 0] = Inr a \<and> attrib_get a ''href'' = Inr link \<and> nm = etext a"
  by (auto simp: row_key_def and_then_Inr_iff)

lemma scrape_row_Yielded:
  assumes "scrape_row env tr = Yielded p"
  shows "is_merged_record env tr p"
proof -
  from assms obtain link sid nm info where k: "row_key env tr = Inr (link, sid, nm)"
    and i: "get_plugin_info env sid = Inr info" and m: "merge_row env tr sid info = Inr p"
    by (auto simp: scrape_row_def split: sum.splits)
  from row_key_Inr[OF k] obtain a where a: "path tr [0, 0] = Inr a" "attrib_get a ''href'' = Inr link"
    "nm = etext a"
    by blast
  from m a obtain c1 c2 c3 c4 rating downloads where c: "path tr [1] = Inr c1" "path tr [2] = Inr c2"
    "py_int (int_literal env) (etext c2) = Inr rating" "path tr [3] = Inr c3"
    "py_int (int_literal env) (etext c3) = Inr downloads" "path tr [4, 0] = Inr c4"
    and p: "p = \<lparr>vimorg_num_raters = vimorg_num_raters info,
            author = author info,
            vimorg_long_desc = vimorg_long_desc info,
            vimorg_install_details = vimorg_install_details info,
            updated_at = updated_at info,
            created_at = created_at info,
            vimorg_url = ''http://www.vim.org/scripts/'' @ link,
            vim_script_id = sid,
            name = etext a,
            vimorg_type = etext c1,
            vimorg_rating = rating,
            vimorg_downloads = downloads,
            vimorg_short_desc = etext c4\<rparr>"
    unfolding merge_row_def by (auto simp: and_then_Inr_iff)
  show ?thesis
    unfolding is_merged_record_def
    by (rule exI[of _ link], rule exI[of _ sid], rule exI[of _ nm], rule exI[of _ info],
        rule exI[of _ c1], rule exI[of _ c2], rule exI[of _ c3], rule exI[of _ c4])
      (simp add: k i c p a del: path.simps)
qed

lemma scrape_row_well_formed:
  assumes "row_key env tr = Inr (link, sid, nm)" and "get_plugin_info env sid = Inr info"
    and "path tr [1] = Inr c1" and "path tr [2] = Inr c2"
    and "py_int (int_literal env) (etext c2) = Inr r" and "path tr [3] = Inr c3"
    and "py_int (int_literal env) (etext c3) = Inr d" and "path tr [4, 0] = Inr c4"
  shows "\<exists>p. scrape_row env tr = Yielded p"
proof -
  from row_key_Inr[OF assms(1)] obtain a where "path tr [0, 0] = Inr a" "attrib_get a ''href'' = Inr link"
    by blast
  with assms show ?thesis
    by (simp add: scrape_row_def merge_row_def)
qed

lemma all_Yielded:
  "\<forall>x\<in>set xs. \<exists>p. scrape_row env x = Yielded p \<Longrightarrow> \<exists>ps. map (scrape_row env) xs = map Yielded ps"
proof (induction xs)
  case Nil
  then show ?case by simp
next
  case (Cons x xs)
  then obtain p ps where "scrape_row env x = Yielded p" "map (scrape_row env) xs = map Yielded ps"
    by auto
  then have "map (scrape_row env) (x # xs) = map Yielded (p # ps)" by simp
  then show ?case by blast
qed

lemma map_Yielded_merged:
  "map (scrape_row env) xs = map Yielded ps \<Longrightarrow> list_all2 (is_merged_record env) xs ps"
proof (induction xs arbitrary: ps)
  case Nil
  then show ?case by simp
next
  case (Cons x xs)
  then obtain p ps' where ps: "ps = p # ps'" "scrape_row env x = Yielded p"
    "map (scrape_row env) xs = map Yielded ps'"
    by (cases ps) auto
  with Cons.IH[of ps'] scrape_row_Yielded[of env x p] show ?case by simp
qed

text \<open>
  Claim C3. The table has two header rows, the item rows and a last row. One item row's
  detail fetch fails; every other item row is well formed (link, identifier, type,
  integer rating, integer download count and short description can be read) and its
  detail fetch returns. Then the run ends without an exception and writes one log entry,
  for the failed row; it yields one record for each of the other rows, in their order,
  so one fewer than there are item rows, and each is the merged record of its row: the
  row's summary fields together with the detail mapping fetched for the row's identifier.
\<close>

theorem get_plugin_list_one_failed_row:
  assumes "fetch_listing env num = Inr (h1 # h2 # (before @ [bad] @ after) @ [footer])"
    and "\<forall>tr\<in>set (before @ after). \<exists>link sid nm info c1 c2 c3 c4 r d.
           row_key env tr = Inr (link, sid, nm) \<and> get_plugin_info env sid = Inr info
           \<and> path tr [1] = Inr c1 \<and> path tr [2] = Inr c2
           \<and> py_int (int_literal env) (etext c2) = Inr r \<and> path tr [3] = Inr c3
           \<and> py_int (int_literal env) (etext c3) = Inr d \<and> path tr [4, 0] = Inr c4"
    and "row_key env bad = Inr (link, sid, nm)"
    and "get_plugin_info env sid = Inl e"
  shows "\<exists>ps. get_plugin_list env num =
               \<lparr>yielded = ps,
                logged = [\<lparr>log_name = nm, log_script_id = sid, log_error = e\<rparr>],
                raised = None\<rparr>
           \<and> length ps = length (before @ [bad] @ after) - 1
           \<and> list_all2 (is_merged_record env) (before @ after) ps"
proof -
  have good: "\<forall>tr\<in>set (before @ after). \<exists>p. scrape_row env tr = Yielded p"
  proof
    fix tr
    assume "tr \<in> set (before @ after)"
    with assms(2) have "\<exists>link sid nm info c1 c2 c3 c4 r d.
           row_key env tr = Inr (link, sid, nm) \<and> get_plugin_info env sid = Inr info
           \<and> path tr [1] = Inr c1 \<and> path tr [2] = Inr c2
           \<and> py_int (int_literal env) (etext c2) = Inr r \<and> path tr [3] = Inr c3
           \<and> py_int (int_literal env) (etext c3) = Inr d \<and> path tr [4, 0] = Inr c4"
      by (rule bspec)
    then show "\<exists>p. scrape_row env tr = Yielded p"
      by (elim exE conjE) (rule scrape_row_well_formed; assumption)
  qed
  then obtain ps1 ps2 where ps1: "map (scrape_row env) before = map Yielded ps1"
    and ps2: "map (scrape_row env) after = map Yielded ps2"
    using all_Yielded[of before env] all_Yielded[of after env] by auto
  have bad: "scrape_row env bad = Logged \<lparr>log_name = nm, log_script_id = sid, log_error = e\<rparr>"
    using assms(3,4) by (simp add: scrape_row_def)
  have tail: "scrape_rows env after = \<lparr>yielded = ps2, logged = [], raised = None\<rparr>"
    using scrape_rows_Yielded[OF ps2, of "[]"] by simp
  have "get_plugin_list env num = scrape_rows env (before @ [bad] @ after)"
    using assms(1) py_slice_table[of h1 h2 "before @ [bad] @ after" footer]
    by (simp add: get_plugin_list_def)
  also have "\<dots> = \<lparr>yielded = ps1 @ ps2,
                   logged = [\<lparr>log_name = nm, log_script_id = sid, log_error = e\<rparr>],
                   raised = None\<rparr>"
    using scrape_rows_Yielded[OF ps1, of "[bad] @ after"] bad tail by (simp add: Let_def)
  finally have run: "get_plugin_list env num =
      \<lparr>yielded = ps1 @ ps2, logged = [\<lparr>log_name = nm, log_script_id = sid, log_error = e\<rparr>],
       raised = None\<rparr>" .
  have len: "length (ps1 @ ps2) = length (before @ [bad] @ after) - 1"
    using arg_cong[OF ps1, of length] arg_cong[OF ps2, of length] by simp
  from ps1 ps2 have "map (scrape_row env) (before @ after) = map Yielded (ps1 @ ps2)" by simp
  then have "list_all2 (is_merged_record env) (before @ after) (ps1 @ ps2)"
    by (rule map_Yielded_merged)
  with run len show ?thesis by blast
qed

theorem get_plugin_list_one_failed_row_witness:
  "fetch_listing sample_env 3 = Inr sample_table
   \<and> length sample_table = 6
   \<and> row_key sample_env (listing_row ''4325'' ''vimcat'' (Some ''7''))
       = Inr (''script.php?script_id=4325'', 4325, Some ''vimcat'')
   \<and> get_plugin_info sample_env 4325 = Inl (External ''no null bytes or control chars'')
   \<and> get_plugin_list sample_env 3 =
       \<lparr>yielded =
          [\<lparr>vimorg_num_raters = 5, author = Some ''Bram'',
            vimorg_long_desc = ''one see http://vim.org two'',
            vimorg_install_details = ''bold text'',
            updated_at = 748961, created_at = 748510,
            vimorg_url = ''http://www.vim.org/scripts/script.php?script_id=4327'',
            vim_script_id = 4327, name = Some ''alpha'', vimorg_type = Some ''utility'',
            vimorg_rating = 12, vimorg_downloads = 345, vimorg_short_desc = Some ''a plugin''\<rparr>,
           \<lparr>vimorg_num_raters = 5, author = Some ''Bram'',
            vimorg_long_desc = ''one see http://vim.org two'',
            vimorg_install_details = ''bold text'',
            updated_at = 748961, created_at = 748510,
            vimorg_url = ''http://www.vim.org/scripts/script.php?script_id=4320'',
            vim_script_id = 4320, name = Some ''gamma'', vimorg_type = Some ''utility'',
            vimorg_rating = 3, vimorg_downloads = 345, vimorg_short_desc = Some ''a plugin''\<rparr>],
        logged = [\<lparr>log_name = Some ''vimcat'', log_script_id = 4325,
                   log_error = External ''no null bytes or control chars''\<rparr>],
        raised = None\<rparr>
   \<and> list_all2 (is_merged_record sample_env)
        [listing_row ''4327'' ''alpha'' (Some ''12''), listing_row ''4320'' ''gamma'' (Some ''3'')]
        [\<lparr>vimorg_num_raters = 5, author = Some ''Bram'',
            vimorg_long_desc = ''one see http://vim.org two'',
            vimorg_install_details = ''bold text'',
            updated_at = 748961, created_at = 748510,
            vimorg_url = ''http://www.vim.org/scripts/script.php?script_id=4327'',
            vim_script_id = 4327, name = Some ''alpha'', vimorg_type = Some ''utility'',
            vimorg_rating = 12, vimorg_downloads = 345, vimorg_short_desc = Some ''a plugin''\<rparr>,
         \<lparr>vimorg_num_raters = 5, author = Some ''Bram'',
            vimorg_long_desc = ''one see http://vim.org two'',
            vimorg_install_details = ''bold text'',
            updated_at = 748961, created_at = 748510,
            vimorg_url = ''http://www.vim.org/scripts/script.php?script_id=4320'',
            vim_script_id = 4320, name = Some ''gamma'', vimorg_type = Some ''utility'',
            vimorg_rating = 3, vimorg_downloads = 345, vimorg_short_desc = Some ''a plugin''\<rparr>]"
proof -
  let ?r1 = "listing_row ''4327'' ''alpha'' (Some ''12'')"
  let ?r2 = "listing_row ''4325'' ''vimcat'' (Some ''7'')"
  let ?r3 = "listing_row ''4320'' ''gamma'' (Some ''3'')"
  have h1: "fetch_listing sample_env 3 =
      Inr (table_row [Element ''th'' [] (Some ''Search Results'') [] None]
           # table_row [Element ''th'' [] (Some ''Script'') [] None, Element ''th'' [] (Some ''Type'') [] None]
           # ([?r1] @ [?r2] @ [?r3]) @ [table_row [text_cell ''next'']])"
    by (simp add: sample_env_def sample_table_def)
  have h2: "\<forall>tr\<in>set ([?r1] @ [?r3]). \<exists>link sid nm info c1 c2 c3 c4 r d.
           row_key sample_env tr = Inr (link, sid, nm) \<and> get_plugin_info sample_env sid = Inr info
           \<and> path tr [1] = Inr c1 \<and> path tr [2] = Inr c2
           \<and> py_int (int_literal sample_env) (etext c2) = Inr r \<and> path tr [3] = Inr c3
           \<and> py_int (int_literal sample_env) (etext c3) = Inr d \<and> path tr [4, 0] = Inr c4"
    by (simp add: eval_defs)
  have h3: "row_key sample_env ?r2 = Inr (''script.php?script_id=4325'', 4325, Some ''vimcat'')"
    by (simp add: eval_defs)
  have h4: "get_plugin_info sample_env 4325 = Inl (External ''no null bytes or control chars'')"
    by (simp add: eval_defs)
  have run: "get_plugin_list sample_env 3 =
       \<lparr>yielded =
          [\<lparr>vimorg_num_raters = 5, author = Some ''Bram'',
            vimorg_long_desc = ''one see http://vim.org two'',
            vimorg_install_details = ''bold text'',
            updated_at = 748961, created_at = 748510,
            vimorg_url = ''http://www.vim.org/scripts/script.php?script_id=4327'',
            vim_script_id = 4327, name = Some ''alpha'', vimorg_type = Some ''utility'',
            vimorg_rating = 12, vimorg_downloads = 345, vimorg_short_desc = Some ''a plugin''\<rparr>,
           \<lparr>vimorg_num_raters = 5, author = Some ''Bram'',
            vimorg_long_desc = ''one see http://vim.org two'',
            vimorg_install_details = ''bold text'',
            updated_at = 748961, created_at = 748510,
            vimorg_url = ''http://www.vim.org/scripts/script.php?script_id=4320'',
            vim_script_id = 4320, name = Some ''gamma'', vimorg_type = Some ''utility'',
            vimorg_rating = 3, vimorg_downloads = 345, vimorg_short_desc = Some ''a plugin''\<rparr>],
        logged = [\<lparr>log_name = Some ''vimcat'', log_script_id = 4325,
                   log_error = External ''no null bytes or control chars''\<rparr>],
        raised = None\<rparr>"
    by (simp add: eval_defs)
  from get_plugin_list_one_failed_row[OF h1 h2 h3 h4] run
  have "list_all2 (is_merged_record sample_env) [?r1, ?r3]
        [\<lparr>vimorg_num_raters = 5, author = Some ''Bram'',
            vimorg_long_desc = ''one see http://vim.org two'',
            vimorg_install_details = ''bold text'',
            updated_at = 748961, created_at = 748510,
            vimorg_url = ''http://www.vim.org/scripts/script.php?script_id=4327'',
            vim_script_id = 4327, name = Some ''alpha'', vimorg_type = Some ''utility'',
            vimorg_rating = 12, vimorg_downloads = 345, vimorg_short_desc = Some ''a plugin''\<rparr>,
         \<lparr>vimorg_num_raters = 5, author = Some ''Bram'',
            vimorg_long_desc = ''one see http://vim.org two'',
            vimorg_install_details = ''bold text'',
            updated_at = 748961, created_at = 748510,
            vimorg_url = ''http://www.vim.org/scripts/script.php?script_id=4320'',
            vim_script_id = 4320, name = Some ''gamma'', vimorg_type = Some ''utility'',
            vimorg_rating = 3, vimorg_downloads = 345, vimorg_short_desc = Some ''a plugin''\<rparr>]"
    by auto
  with run h3 h4 show ?thesis
    by (simp add: sample_env_def sample_table_def)
qed

text \<open>
  Claim C7, as the code has it. The loop runs over the rows at positions 2 to \<open>n - 2\<close> of
  the \<open>n\<close> rows of the located table, so never over the first two rows or the last one,
  and the run yields at most \<open>n - 3\<close> dictionaries. The requested count \<open>num\<close> only goes
  into the URL of the listing page.
\<close>

theorem get_plugin_list_rows:
  assumes "fetch_listing env num = Inr scripts"
  shows "get_plugin_list env num = scrape_rows env (map ((!) scripts) [2..<length scripts - 1])
       \<and> length (yielded (get_plugin_list env num)) \<le> length scripts - 3"
proof -
  have run: "get_plugin_list env num = scrape_rows env (map ((!) scripts) [2..<length scripts - 1])"
    using assms by (simp add: get_plugin_list_def py_slice_rows)
  have "length (yielded (get_plugin_list env num)) \<le> length (map ((!) scripts) [2..<length scripts - 1])"
    unfolding run by (rule scrape_rows_length)
  with run show ?thesis by simp
qed

theorem get_plugin_list_rows_witness:
  "fetch_listing sample_env 3 = Inr sample_table
   \<and> map ((!) sample_table) [2..<length sample_table - 1] =
       [listing_row ''4327'' ''alpha'' (Some ''12''), listing_row ''4325'' ''vimcat'' (Some ''7''),
        listing_row ''4320'' ''gamma'' (Some ''3'')]
   \<and> length (yielded (get_plugin_list sample_env 3)) \<le> length sample_table - 3"
proof -
  have h: "fetch_listing sample_env 3 = Inr sample_table"
    by (simp add: sample_env_def)
  have "[2..<length sample_table - 1] = [2, 3, 4]"
    by (simp add: sample_table_def upt_rec)
  then have "map ((!) sample_table) [2..<length sample_table - 1] =
       [listing_row ''4327'' ''alpha'' (Some ''12''), listing_row ''4325'' ''vimcat'' (Some ''7''),
        listing_row ''4320'' ''gamma'' (Some ''3'')]"
    by (simp add: sample_table_def)
  moreover from get_plugin_list_rows[OF h]
  have "length (yielded (get_plugin_list sample_env 3)) \<le> length sample_table - 3"
    by (rule conjunct2)
  ultimately show ?thesis using h by blast
qed

text \<open>
  Claim C7 as stated fails for a request of 3 whose table has the three item rows asked
  for: two of them are yielded, more than \<open>3 - 3\<close>.
\<close>

theorem get_plugin_list_more_than_num_minus_3:
  "fetch_listing sample_env 3 = Inr sample_table
   \<and> length (yielded (get_plugin_list sample_env 3)) = 2
   \<and> \<not> int (length (yielded (get_plugin_list sample_env 3))) \<le> 3 - 3"
  by (simp add: eval_defs)

section \<open>Properties of the date parser and the detail fetcher\<close>

lemma year_alts_mem:
  "(y, r) \<in> set (year_alts s) \<longleftrightarrow> s = y @ r \<and> length y = 4 \<and> list_all is_digit y"
proof
  assume "(y, r) \<in> set (year_alts s)"
  then show "s = y @ r \<and> length y = 4 \<and> list_all is_digit y"
    by (auto simp: year_alts_def split: list.splits if_splits)
next
  assume a: "s = y @ r \<and> length y = 4 \<and> list_all is_digit y"
  then obtain a b c d where "y = [a, b, c, d]"
    by (cases y; simp; cases "tl y"; simp; cases "tl (tl y)"; simp; cases "tl (tl (tl y))"; simp)
  with a show "(y, r) \<in> set (year_alts s)"
    by (simp add: year_alts_def)
qed

lemma lit_mem: "r \<in> set (lit c s) \<longleftrightarrow> s = c # r"
  by (auto simp: lit_def split: list.splits if_splits)

lemma month_alts_mem: "(m, r) \<in> set (month_alts s) \<longleftrightarrow> s = m @ r \<and> m \<in> set month_texts"
  by (auto simp: month_alts_def month_texts_def alt1_def alt2_def one_of_def split: list.splits if_splits)

lemma day_alts_mem: "(d, r) \<in> set (day_alts s) \<longleftrightarrow> s = d @ r \<and> d \<in> set day_texts"
  by (auto simp: day_alts_def day_texts_def alt1_def alt2_def one_of_def is_digit_def
      split: list.splits if_splits)

lemma in_concat_map: "a \<in> set xs \<Longrightarrow> z \<in> set (f a) \<Longrightarrow> z \<in> set (concat (map f xs))"
  by auto

lemma in_concat_map_pair:
  "(a, b) \<in> set xs \<Longrightarrow> z \<in> set (f a b) \<Longrightarrow> z \<in> set (concat (map (\<lambda>(a, b). f a b) xs))"
  by (rule in_concat_map[of "(a, b)"]) simp_all

lemma in_map_pair: "(a, b) \<in> set xs \<Longrightarrow> f a b \<in> set (map (\<lambda>(a, b). f a b) xs)"
  by force

lemma match_ymd_set:
  "(y, m, d, r5) \<in> set (match_ymd s) \<longleftrightarrow>
     (\<exists>r1 r2 r3 r4. (y, r1) \<in> set (year_alts s) \<and> r2 \<in> set (lit CHR ''-'' r1)
        \<and> (m, r3) \<in> set (month_alts r2) \<and> r4 \<in> set (lit CHR ''-'' r3)
        \<and> (d, r5) \<in> set (day_alts r4))"
proof
  assume "(y, m, d, r5) \<in> set (match_ymd s)"
  then show "\<exists>r1 r2 r3 r4. (y, r1) \<in> set (year_alts s) \<and> r2 \<in> set (lit CHR ''-'' r1)
        \<and> (m, r3) \<in> set (month_alts r2) \<and> r4 \<in> set (lit CHR ''-'' r3)
        \<and> (d, r5) \<in> set (day_alts r4)"
    by (auto simp: match_ymd_def)
next
  assume "\<exists>r1 r2 r3 r4. (y, r1) \<in> set (year_alts s) \<and> r2 \<in> set (lit CHR ''-'' r1)
        \<and> (m, r3) \<in> set (month_alts r2) \<and> r4 \<in> set (lit CHR ''-'' r3)
        \<and> (d, r5) \<in> set (day_alts r4)"
  then obtain r1 r2 r3 r4 where a: "(y, r1) \<in> set (year_alts s)" "r2 \<in> set (lit CHR ''-'' r1)"
    "(m, r3) \<in> set (month_alts r2)" "r4 \<in> set (lit CHR ''-'' r3)" "(d, r5) \<in> set (day_alts r4)"
    by blast
  show "(y, m, d, r5) \<in> set (match_ymd s)"
    unfolding match_ymd_def
    by (rule in_concat_map_pair[OF a(1)], rule in_concat_map[OF a(2)],
        rule in_concat_map_pair[OF a(3)], rule in_concat_map[OF a(4)], rule in_map_pair[OF a(5)])
qed

lemma match_ymd_mem:
  "(y, m, d, r) \<in> set (match_ymd s) \<longleftrightarrow>
     s = y @ ''-'' @ m @ ''-'' @ d @ r \<and> length y = 4 \<and> list_all is_digit y
     \<and> m \<in> set month_texts \<and> d \<in> set day_texts"
  unfolding match_ymd_set by (auto simp: year_alts_mem lit_mem month_alts_mem day_alts_mem)


lemma length4: "length ys = 4 \<Longrightarrow> \<exists>a b c d. ys = [a, b, c, d]"
  by (cases ys; simp; cases "tl ys"; simp; cases "tl (tl ys)"; simp; cases "tl (tl (tl ys))"; simp)

lemma match_ymd_texts:
  assumes "length ys = 4" and "list_all is_digit ys" and "ms \<in> set month_texts"
  shows "match_ymd (ys @ ''-'' @ ms @ ''-'' @ ds) = map (\<lambda>(d, r). (ys, ms, d, r)) (day_alts ds)"
proof -
  from length4[OF assms(1)] obtain a b c d where ys: "ys = [a, b, c, d]" by blast
  from assms(2,3) show ?thesis
    unfolding ys
    by (auto simp: month_texts_def match_ymd_def year_alts_def month_alts_def alt1_def alt2_def
        one_of_def lit_def)
qed

lemma day_alts_hd: "ds \<in> set day_texts \<Longrightarrow> \<exists>more. day_alts ds = (ds, []) # more"
  by (auto simp: day_texts_def day_alts_def alt1_def alt2_def one_of_def is_digit_def)


lemma digit_value_range: "is_digit c \<Longrightarrow> 0 \<le> int (of_char c) - 48 \<and> int (of_char c) - 48 \<le> 9"
  by (auto simp: is_digit_def)

lemma year_text_range:
  assumes "length ys = 4" and "list_all is_digit ys"
  shows "0 \<le> group_int ys \<and> group_int ys \<le> 9999"
proof -
  from length4[OF assms(1)] obtain a b c d where ys: "ys = [a, b, c, d]" by blast
  with assms(2) have "is_digit a" "is_digit b" "is_digit c" "is_digit d" by simp_all
  then show ?thesis
    using digit_value_range[of a] digit_value_range[of b] digit_value_range[of c] digit_value_range[of d]
    unfolding ys by (simp add: group_int_def)
qed

lemma month_text_range: "ms \<in> set month_texts \<Longrightarrow> 1 \<le> group_int ms \<and> group_int ms \<le> 12"
  by (auto simp: month_texts_def group_int_def is_digit_def)

lemma day_text_range: "ds \<in> set day_texts \<Longrightarrow> 1 \<le> group_int ds \<and> group_int ds \<le> 31"
  by (auto simp: day_texts_def group_int_def is_digit_def)

lemma strptime_ymd_Inl: "strptime_ymd s = Inl e \<Longrightarrow> e = ValueError"
  by (auto simp: strptime_ymd_def make_date_def split: list.splits if_splits)

lemma strptime_ymd_Inr_iff:
  "strptime_ymd s = Inr dt \<longleftrightarrow>
     (\<exists>ys ms ds. s = ys @ ''-'' @ ms @ ''-'' @ ds \<and> length ys = 4 \<and> list_all is_digit ys
        \<and> ms \<in> set month_texts \<and> ds \<in> set day_texts
        \<and> dt = \<lparr>year = group_int ys, month = group_int ms, day = group_int ds\<rparr>
        \<and> 1 \<le> group_int ys \<and> group_int ds \<le> days_in_month (group_int ys) (group_int ms))"
proof
  assume ok: "strptime_ymd s = Inr dt"
  then obtain y m d more where hd: "match_ymd s = (y, m, d, []) # more"
    and mk: "make_date (group_int y) (group_int m) (group_int d) = Inr dt"
    by (auto simp: strptime_ymd_def split: list.splits if_splits)
  from hd have "(y, m, d, []) \<in> set (match_ymd s)" by simp
  then have shape: "s = y @ ''-'' @ m @ ''-'' @ d" "length y = 4" "list_all is_digit y"
    "m \<in> set month_texts" "d \<in> set day_texts"
    by (simp_all add: match_ymd_mem)
  from mk have "dt = \<lparr>year = group_int y, month = group_int m, day = group_int d\<rparr>"
    "1 \<le> group_int y" "group_int d \<le> days_in_month (group_int y) (group_int m)"
    by (auto simp: make_date_def split: if_splits)
  with shape show "\<exists>ys ms ds. s = ys @ ''-'' @ ms @ ''-'' @ ds \<and> length ys = 4 \<and> list_all is_digit ys
        \<and> ms \<in> set month_texts \<and> ds \<in> set day_texts
        \<and> dt = \<lparr>year = group_int ys, month = group_int ms, day = group_int ds\<rparr>
        \<and> 1 \<le> group_int ys \<and> group_int ds \<le> days_in_month (group_int ys) (group_int ms)"
    by blast
next
  assume "\<exists>ys ms ds. s = ys @ ''-'' @ ms @ ''-'' @ ds \<and> length ys = 4 \<and> list_all is_digit ys
        \<and> ms \<in> set month_texts \<and> ds \<in> set day_texts
        \<and> dt = \<lparr>year = group_int ys, month = group_int ms, day = group_int ds\<rparr>
        \<and> 1 \<le> group_int ys \<and> group_int ds \<le> days_in_month (group_int ys) (group_int ms)"
  then obtain ys ms ds where s: "s = ys @ ''-'' @ ms @ ''-'' @ ds" and y: "length ys = 4" "list_all is_digit ys"
    and m: "ms \<in> set month_texts" and d: "ds \<in> set day_texts"
    and dt: "dt = \<lparr>year = group_int ys, month = group_int ms, day = group_int ds\<rparr>"
    and r: "1 \<le> group_int ys" "group_int ds \<le> days_in_month (group_int ys) (group_int ms)"
    by blast
  from day_alts_hd[OF d] obtain more where "day_alts ds = (ds, []) # more" by blast
  with match_ymd_texts[OF y m, of ds] have "match_ymd s = (ys, ms, ds, []) # map (\<lambda>(d, r). (ys, ms, d, r)) more"
    unfolding s by simp
  then have "strptime_ymd s = make_date (group_int ys) (group_int ms) (group_int ds)"
    by (simp add: strptime_ymd_def)
  also have "\<dots> = Inr dt"
    using year_text_range[OF y] month_text_range[OF m] day_text_range[OF d] r dt
    by (simp add: make_date_def)
  finally show "strptime_ymd s = Inr dt" .
qed

lemma strptime_ymd_text: "strptime_ymd s = Inr dt \<longleftrightarrow> ymd_text s dt"
  unfolding ymd_text_def by (rule strptime_ymd_Inr_iff)

lemma strptime_ymd_no_text: "(\<forall>dt. \<not> ymd_text s dt) \<Longrightarrow> strptime_ymd s = Inl ValueError"
proof -
  assume no: "\<forall>dt. \<not> ymd_text s dt"
  show ?thesis
  proof (cases "strptime_ymd s")
    case (Inl e)
    then show ?thesis using strptime_ymd_Inl[of s e] by simp
  next
    case (Inr dt)
    with no show ?thesis by (simp add: strptime_ymd_text)
  qed
qed

lemma release_dates_Inr:
  "release_dates page = Inr dates \<Longrightarrow>
   \<exists>h u c us cs. cell (download_trs page) 0 [2] = Inr h \<and> etext h = Some ''date''
      \<and> cell (download_trs page) 1 [2, 0] = Inr u \<and> etext u = Some us
      \<and> cell (download_trs page) (- 1) [2, 0] = Inr c \<and> etext c = Some cs
      \<and> strptime_ymd us = Inr (fst dates)
      \<and> strptime_ymd cs = Inr (snd dates)"
  by (auto simp: release_dates_def and_then_Inr_iff assert_that_def py_strptime_def
      split: if_splits option.splits)

lemma get_plugin_info_Inr:
  "get_plugin_info env script_id = Inr info \<Longrightarrow>
   \<exists>page dates. fetch_detail env script_id = Inr page \<and> release_dates page = Inr dates
      \<and> updated_at info = to_timestamp env (fst dates)
      \<and> created_at info = to_timestamp env (snd dates)"
  by (auto simp: get_plugin_info_def and_then_Inr_iff)

text \<open>
  Claim C8, as the code has it. Whenever the detail fetcher returns, the third cell of the
  first row of the release notes table reads \<^verbatim>\<open>date\<close>, \<^verbatim>\<open>updated_at\<close> is the timestamp of
  the date in the second row and \<^verbatim>\<open>created_at\<close> that of the date in the last row, and both
  texts are texts of the format \<^verbatim>\<open>%Y-%m-%d\<close> as \<^verbatim>\<open>strptime\<close> reads it: a year of four
  digits, a month and a day of one or two digits, hyphens between them, a calendar date.
  On a page that got as far as the release notes table, a header that does not read
  \<^verbatim>\<open>date\<close> ends the fetch with an AssertionError before any date is parsed; a date text
  that is no text of the format ends it with a ValueError; and with two texts of the
  format the fetch returns their timestamps. The parser accepts the texts of the format
  and no others.
\<close>

theorem get_plugin_info_dates:
  "(get_plugin_info env script_id = Inr info \<longrightarrow>
      (\<exists>page h u c us cs ud cd.
          fetch_detail env script_id = Inr page
          \<and> cell (download_trs page) 0 [2] = Inr h \<and> etext h = Some ''date''
          \<and> cell (download_trs page) 1 [2, 0] = Inr u \<and> etext u = Some us
          \<and> cell (download_trs page) (- 1) [2, 0] = Inr c \<and> etext c = Some cs
          \<and> ymd_text us ud \<and> ymd_text cs cd
          \<and> updated_at info = to_timestamp env ud \<and> created_at info = to_timestamp env cd))
   \<and> (fetch_detail env script_id = Inr page \<and> rating_denom env page = Inr d
        \<and> description_nodes page = Inr nodes \<and> cell (download_trs page) 0 [2] = Inr h \<longrightarrow>
        (etext h \<noteq> Some ''date'' \<longrightarrow> get_plugin_info env script_id = Inl AssertionError)
        \<and> (etext h = Some ''date''
             \<and> cell (download_trs page) 1 [2, 0] = Inr u \<and> etext u = Some us
             \<and> cell (download_trs page) (- 1) [2, 0] = Inr c \<and> etext c = Some cs \<longrightarrow>
             ((\<forall>dt. \<not> ymd_text us dt) \<longrightarrow> get_plugin_info env script_id = Inl ValueError)
             \<and> (ymd_text us ud \<and> (\<forall>dt. \<not> ymd_text cs dt) \<longrightarrow>
                  get_plugin_info env script_id = Inl ValueError)
             \<and> (ymd_text us ud \<and> ymd_text cs cd \<longrightarrow>
                  (\<exists>found. get_plugin_info env script_id = Inr found
                     \<and> updated_at found = to_timestamp env ud
                     \<and> created_at found = to_timestamp env cd))))
   \<and> (strptime_ymd s = Inr dt \<longleftrightarrow> ymd_text s dt)"
proof (intro conjI impI)
  assume "get_plugin_info env script_id = Inr info"
  from get_plugin_info_Inr[OF this] obtain page dates where
    p: "fetch_detail env script_id = Inr page" "release_dates page = Inr dates"
       "updated_at info = to_timestamp env (fst dates)" "created_at info = to_timestamp env (snd dates)"
    by blast
  from release_dates_Inr[OF p(2)] p(1,3,4)
  show "\<exists>page h u c us cs ud cd.
          fetch_detail env script_id = Inr page
          \<and> cell (download_trs page) 0 [2] = Inr h \<and> etext h = Some ''date''
          \<and> cell (download_trs page) 1 [2, 0] = Inr u \<and> etext u = Some us
          \<and> cell (download_trs page) (- 1) [2, 0] = Inr c \<and> etext c = Some cs
          \<and> ymd_text us ud \<and> ymd_text cs cd
          \<and> updated_at info = to_timestamp env ud \<and> created_at info = to_timestamp env cd"
    unfolding strptime_ymd_text by blast
next
  assume "fetch_detail env script_id = Inr page \<and> rating_denom env page = Inr d
        \<and> description_nodes page = Inr nodes \<and> cell (download_trs page) 0 [2] = Inr h"
    and "etext h \<noteq> Some ''date''"
  then show "get_plugin_info env script_id = Inl AssertionError"
    by (simp add: get_plugin_info_def release_dates_def assert_that_def)
next
  assume pre: "fetch_detail env script_id = Inr page \<and> rating_denom env page = Inr d
        \<and> description_nodes page = Inr nodes \<and> cell (download_trs page) 0 [2] = Inr h"
    and cells: "etext h = Some ''date''
             \<and> cell (download_trs page) 1 [2, 0] = Inr u \<and> etext u = Some us
             \<and> cell (download_trs page) (- 1) [2, 0] = Inr c \<and> etext c = Some cs"
    and "\<forall>dt. \<not> ymd_text us dt"
  then have "strptime_ymd us = Inl ValueError" by (simp add: strptime_ymd_no_text)
  with pre cells show "get_plugin_info env script_id = Inl ValueError"
    by (simp add: get_plugin_info_def release_dates_def assert_that_def py_strptime_def)
next
  assume pre: "fetch_detail env script_id = Inr page \<and> rating_denom env page = Inr d
        \<and> description_nodes page = Inr nodes \<and> cell (download_trs page) 0 [2] = Inr h"
    and cells: "etext h = Some ''date''
             \<and> cell (download_trs page) 1 [2, 0] = Inr u \<and> etext u = Some us
             \<and> cell (download_trs page) (- 1) [2, 0] = Inr c \<and> etext c = Some cs"
    and "ymd_text us ud \<and> (\<forall>dt. \<not> ymd_text cs dt)"
  then have "strptime_ymd us = Inr ud" "strptime_ymd cs = Inl ValueError"
    by (simp_all add: strptime_ymd_text strptime_ymd_no_text)
  with pre cells show "get_plugin_info env script_id = Inl ValueError"
    by (simp add: get_plugin_info_def release_dates_def assert_that_def py_strptime_def)
next
  assume pre: "fetch_detail env script_id = Inr page \<and> rating_denom env page = Inr d
        \<and> description_nodes page = Inr nodes \<and> cell (download_trs page) 0 [2] = Inr h"
    and cells: "etext h = Some ''date''
             \<and> cell (download_trs page) 1 [2, 0] = Inr u \<and> etext u = Some us
             \<and> cell (download_trs page) (- 1) [2, 0] = Inr c \<and> etext c = Some cs"
    and "ymd_text us ud \<and> ymd_text cs cd"
  then have "strptime_ymd us = Inr ud" "strptime_ymd cs = Inr cd"
    by (simp_all add: strptime_ymd_text)
  with pre cells show "\<exists>found. get_plugin_info env script_id = Inr found
                     \<and> updated_at found = to_timestamp env ud
                     \<and> created_at found = to_timestamp env cd"
    by (simp add: get_plugin_info_def release_dates_def assert_that_def py_strptime_def)
next
  show "strptime_ymd s = Inr dt \<longleftrightarrow> ymd_text s dt" by (rule strptime_ymd_text)
qed

text \<open>
  A page whose dates are written \<^verbatim>\<open>2013-04-01\<close> and \<^verbatim>\<open>2012-01-15\<close>, and a page whose
  newest date is written \<^verbatim>\<open>April 1st, 2013\<close>.
\<close>

theorem get_plugin_info_dates_witness:
  "cell (download_trs (sample_page ''2013-04-01'')) 1 [2, 0] = Inr (Element ''i'' [] (Some ''2013-04-01'') [] None)
   \<and> cell (download_trs (sample_page ''2013-04-01'')) (- 1) [2, 0] = Inr (Element ''i'' [] (Some ''2012-01-15'') [] None)
   \<and> ymd_text ''2013-04-01'' \<lparr>year = 2013, month = 4, day = 1\<rparr>
   \<and> ymd_text ''2012-01-15'' \<lparr>year = 2012, month = 1, day = 15\<rparr>
   \<and> get_plugin_info sample_env 4327 =
       Inr \<lparr>vimorg_num_raters = 5, author = Some ''Bram'',
            vimorg_long_desc = ''one see http://vim.org two'',
            vimorg_install_details = ''bold text'',
            updated_at = to_timestamp sample_env \<lparr>year = 2013, month = 4, day = 1\<rparr>,
            created_at = to_timestamp sample_env \<lparr>year = 2012, month = 1, day = 15\<rparr>\<rparr>
   \<and> fetch_detail sample_env 4326 = Inr (sample_page ''April 1st, 2013'')
   \<and> (\<forall>dt. \<not> ymd_text ''April 1st, 2013'' dt)
   \<and> get_plugin_info sample_env 4326 = Inl ValueError"
proof -
  let ?info = "\<lparr>vimorg_num_raters = 5, author = Some ''Bram'',
            vimorg_long_desc = ''one see http://vim.org two'',
            vimorg_install_details = ''bold text'',
            updated_at = to_timestamp sample_env \<lparr>year = 2013, month = 4, day = 1\<rparr>,
            created_at = to_timestamp sample_env \<lparr>year = 2012, month = 1, day = 15\<rparr>\<rparr>"
  let ?bad = "sample_page ''April 1st, 2013''"
  note fmt = get_plugin_info_dates[THEN conjunct2, THEN conjunct2]
  have ok: "get_plugin_info sample_env 4327 = Inr ?info"
    by (simp add: eval_defs)
  have cells: "cell (download_trs (sample_page ''2013-04-01'')) 1 [2, 0] = Inr (Element ''i'' [] (Some ''2013-04-01'') [] None)"
    "cell (download_trs (sample_page ''2013-04-01'')) (- 1) [2, 0] = Inr (Element ''i'' [] (Some ''2012-01-15'') [] None)"
    by (simp_all add: eval_defs)
  have "strptime_ymd ''2013-04-01'' = Inr \<lparr>year = 2013, month = 4, day = 1\<rparr>"
    "strptime_ymd ''2012-01-15'' = Inr \<lparr>year = 2012, month = 1, day = 15\<rparr>"
    by (simp_all add: strptime_defs is_digit_def)
  then have texts: "ymd_text ''2013-04-01'' \<lparr>year = 2013, month = 4, day = 1\<rparr>"
    "ymd_text ''2012-01-15'' \<lparr>year = 2012, month = 1, day = 15\<rparr>"
    by (simp_all add: fmt)
  have "strptime_ymd ''April 1st, 2013'' = Inl ValueError"
    by (simp add: strptime_defs is_digit_def)
  then have none: "\<forall>dt. \<not> ymd_text ''April 1st, 2013'' dt"
    by (simp add: fmt[symmetric])
  have pre: "fetch_detail sample_env 4326 = Inr ?bad" "rating_denom sample_env ?bad = Inr 5"
    "\<exists>nodes. description_nodes ?bad = Inr nodes"
    "cell (download_trs ?bad) 0 [2] = Inr (Element ''th'' [] (Some ''date'') [] None)"
    "cell (download_trs ?bad) 1 [2, 0] = Inr (Element ''i'' [] (Some ''April 1st, 2013'') [] None)"
    "cell (download_trs ?bad) (- 1) [2, 0] = Inr (Element ''i'' [] (Some ''2012-01-15'') [] None)"
    by (simp_all add: eval_defs)
  then obtain nodes where n: "description_nodes ?bad = Inr nodes" by blast
  from get_plugin_info_dates[of sample_env 4326 _ ?bad 5 nodes
      "Element ''th'' [] (Some ''date'') [] None"
      "Element ''i'' [] (Some ''April 1st, 2013'') [] None" "''April 1st, 2013''"
      "Element ''i'' [] (Some ''2012-01-15'') [] None" "''2012-01-15''"] pre n none
  have bad: "get_plugin_info sample_env 4326 = Inl ValueError"
    by simp
  from ok cells texts pre(1) none bad show ?thesis
    by simp
qed

text \<open>
  Claim C8 as stated fails on a page whose newest date is written \<^verbatim>\<open>2013-4-1\<close>: the text
  has not the shape \<^verbatim>\<open>YYYY-MM-DD\<close>, and the fetch does not fail. \<^verbatim>\<open>strptime\<close> reads it as
  the first of April 2013, and the record is the one of a page that writes \<^verbatim>\<open>2013-04-01\<close>.
\<close>

theorem get_plugin_info_date_not_padded:
  "fetch_detail sample_env 4324 = Inr (sample_page ''2013-4-1'')
   \<and> cell (download_trs (sample_page ''2013-4-1'')) 1 [2, 0] = Inr (Element ''i'' [] (Some ''2013-4-1'') [] None)
   \<and> strptime_ymd ''2013-4-1'' = Inr \<lparr>year = 2013, month = 4, day = 1\<rparr>
   \<and> get_plugin_info sample_env 4324 =
       Inr \<lparr>vimorg_num_raters = 5, author = Some ''Bram'',
            vimorg_long_desc = ''one see http://vim.org two'',
            vimorg_install_details = ''bold text'',
            updated_at = to_timestamp sample_env \<lparr>year = 2013, month = 4, day = 1\<rparr>,
            created_at = to_timestamp sample_env \<lparr>year = 2012, month = 1, day = 15\<rparr>\<rparr>
   \<and> get_plugin_info sample_env 4324 = get_plugin_info sample_env 4327"
  by (simp add: eval_defs)

end
